theory Spec2Isabelle
  imports Main
begin

section \<open>Data model (src/types/stats.ts, settings interface)\<close>

text \<open>
  JavaScript numbers that the plugin itself produces are counts and millisecond
  time values: integers, modelled as \<open>int\<close>.  Date keys and file names are
  \<open>string\<close>; the empty string is \<open>[]\<close>.
\<close>

datatype action_tag = add | delete

record TextAnalysisResult =
  chinese :: int
  english :: int
  punctuation :: int
  numbers :: int
  spaces :: int
  words :: int

text \<open>\<open>CharChange\<close> and \<open>DailyStats\<close> both carry the six counters and a
  \<open>total\<close>; the shared fields are a common record prefix so that the field
  names of the source are kept.\<close>

record Counted = TextAnalysisResult +
  total :: int

record CharChange = Counted +
  timestamp :: int
  action :: action_tag
  fileName :: string

record DailyStats = Counted +
  date :: string
  goal :: int
  completed :: bool
  charChanges :: "CharChange list"

record StreakData =
  current :: int
  longest :: int
  lastDate :: string

text \<open>The toggles of \<open>WordCountSettings\<close> that the services read (the heat-map
  presentation fields are not read by any modelled function).\<close>

record WordCountSettings =
  trackChinese :: bool
  trackEnglish :: bool
  trackPunctuation :: bool
  showStatusBar :: bool
  resetWeekly :: bool
  trackNumbers :: bool
  trackSpaces :: bool
  showWordCount :: bool
  enableCache :: bool

record StatsManager =
  dailyStats :: "string \<rightharpoonup> DailyStats"
  streakData :: StreakData
  settings :: WordCountSettings

text \<open>A promise either resolves or rejects.\<close>

datatype outcome = Resolved | Rejected

definition MAX_CHAR_CHANGES :: nat where
  "MAX_CHAR_CHANGES = 100"

definition msPerDay :: int where
  "msPerDay = 1000 * 60 * 60 * 24"

section \<open>Dates\<close>

text \<open>
  \<open>new Date(s).getTime()\<close> is a built-in of the host, not code of the plugin.  It is
  a parameter \<open>parse :: string \<Rightarrow> int option\<close> of every function that calls it: the
  time value in milliseconds, \<open>None\<close> for \<open>NaN\<close> (an invalid date).  The
  theorems hold for every such parser.  \<open>isoDate\<close> below is the parser of the
  ECMAScript date-only form \<open>YYYY-MM-DD\<close> (midnight UTC of a valid calendar date),
  used to run the model on concrete dates.
\<close>

type_synonym date_parser = "string \<Rightarrow> int option"

definition isDigitChar :: "char \<Rightarrow> bool" where
  "isDigitChar c = (48 \<le> (of_char c :: nat) \<and> (of_char c :: nat) \<le> 57)"

definition digitVal :: "char \<Rightarrow> int" where
  "digitVal c = int (of_char c) - 48"

definition isLeapYear :: "int \<Rightarrow> bool" where
  "isLeapYear y = (y mod 4 = 0 \<and> (y mod 100 \<noteq> 0 \<or> y mod 400 = 0))"

definition daysInMonth :: "int \<Rightarrow> int \<Rightarrow> int" where
  "daysInMonth y m =
     (if m = 2 then (if isLeapYear y then 29 else 28)
      else if m = 4 \<or> m = 6 \<or> m = 9 \<or> m = 11 then 30 else 31)"

text \<open>Days from 1970-01-01 to the civil date \<open>y-m-d\<close> (proleptic Gregorian).\<close>

definition daysFromCivil :: "int \<Rightarrow> int \<Rightarrow> int \<Rightarrow> int" where
  "daysFromCivil y m d =
     (let y' = (if m \<le> 2 then y - 1 else y);
          era = y' div 400;
          yoe = y' mod 400;
          mp = (if m > 2 then m - 3 else m + 9);
          doy = (153 * mp + 2) div 5 + d - 1;
          doe = yoe * 365 + yoe div 4 - yoe div 100 + doy
      in era * 146097 + doe - 719468)"

fun isoDate :: date_parser where
  "isoDate [y1, y2, y3, y4, s1, m1, m2, s2, d1, d2] =
     (if isDigitChar y1 \<and> isDigitChar y2 \<and> isDigitChar y3 \<and> isDigitChar y4 \<and>
         s1 = CHR ''-'' \<and> isDigitChar m1 \<and> isDigitChar m2 \<and>
         s2 = CHR ''-'' \<and> isDigitChar d1 \<and> isDigitChar d2
      then
        (let y = 1000 * digitVal y1 + 100 * digitVal y2 + 10 * digitVal y3 + digitVal y4;
             m = 10 * digitVal m1 + digitVal m2;
             d = 10 * digitVal d1 + digitVal d2
         in if 1 \<le> m \<and> m \<le> 12 \<and> 1 \<le> d \<and> d \<le> daysInMonth y m
            then Some (daysFromCivil y m d * msPerDay) else None)
      else None)"
| "isoDate _ = None"

text \<open>\<open>getDaysDifference\<close> of src/utils/helpers.ts:
  \<open>Math.floor((d2.getTime() - d1.getTime()) / (1000 * 60 * 60 * 24))\<close>; \<open>None\<close> is
  \<open>NaN\<close>.\<close>

definition getDaysDifference :: "date_parser \<Rightarrow> string \<Rightarrow> string \<Rightarrow> int option" where
  "getDaysDifference parse date1 date2 =
     (case parse date1 of
        None \<Rightarrow> None
      | Some d1 \<Rightarrow>
          (case parse date2 of
             None \<Rightarrow> None
           | Some d2 \<Rightarrow> Some ((d2 - d1) div msPerDay)))"

section \<open>Streak tracker (StatsManager.updateStreakData, resetData)\<close>

definition initialStreak :: StreakData where
  "initialStreak = \<lparr>current = 0, longest = 0, lastDate = []\<rparr>"

text \<open>
  The body of \<open>updateStreakData\<close>: the early return for an empty \<open>lastDate\<close>, then
  \<open>diffDays\<close> computed inline from the two time values; \<open>diffDays === 1\<close> and
  \<open>diffDays > 1\<close> are both false for \<open>NaN\<close>, and there is no final \<open>else\<close>.
\<close>

definition updateStreakData :: "date_parser \<Rightarrow> StreakData \<Rightarrow> string \<Rightarrow> StreakData" where
  "updateStreakData parse s today =
     (if lastDate s = [] then
        s\<lparr>current := 1, longest := 1, lastDate := today\<rparr>
      else
        (case parse (lastDate s) of
           None \<Rightarrow> s
         | Some lastTime \<Rightarrow>
             (case parse today of
                None \<Rightarrow> s
              | Some currentTime \<Rightarrow>
                  (let diffDays = (currentTime - lastTime) div msPerDay in
                   if diffDays = 1 then
                     (let s1 = s\<lparr>current := current s + 1\<rparr>;
                          s2 = (if current s1 > longest s1
                                then s1\<lparr>longest := current s1\<rparr> else s1)
                      in s2\<lparr>lastDate := today\<rparr>)
                   else if diffDays > 1 then
                     s\<lparr>current := 1, lastDate := today\<rparr>
                   else s))))"

text \<open>\<open>WordCountPlugin.updateStreakData\<close> (the single-file plugin) has the same
  statements on the plugin's own \<open>streakData\<close> field.\<close>

definition plugin_updateStreakData :: "date_parser \<Rightarrow> StreakData \<Rightarrow> string \<Rightarrow> StreakData" where
  "plugin_updateStreakData parse s today =
     (if lastDate s = [] then
        s\<lparr>current := 1, longest := 1, lastDate := today\<rparr>
      else
        (case parse (lastDate s) of
           None \<Rightarrow> s
         | Some lastTime \<Rightarrow>
             (case parse today of
                None \<Rightarrow> s
              | Some currentTime \<Rightarrow>
                  (let diffDays = (currentTime - lastTime) div msPerDay in
                   if diffDays = 1 then
                     (let s1 = s\<lparr>current := current s + 1\<rparr>;
                          s2 = (if current s1 > longest s1
                                then s1\<lparr>longest := current s1\<rparr> else s1)
                      in s2\<lparr>lastDate := today\<rparr>)
                   else if diffDays > 1 then
                     s\<lparr>current := 1, lastDate := today\<rparr>
                   else s))))"

section \<open>Daily aggregator (StatsManager)\<close>

definition createEmptyStats :: "string \<Rightarrow> DailyStats" where
  "createEmptyStats d =
     \<lparr>chinese = 0, english = 0, punctuation = 0, numbers = 0, spaces = 0, words = 0,
      total = 0, date = d, goal = 0, completed = False, charChanges = []\<rparr>"

text \<open>\<open>Array.prototype.slice(start)\<close> with one argument: a negative \<open>start\<close> counts
  from the end and is clamped at 0, a positive one is clamped at the length.\<close>

definition js_slice :: "int \<Rightarrow> 'a list \<Rightarrow> 'a list" where
  "js_slice start xs =
     (let len = int (length xs);
          k = (if start < 0 then max (len + start) 0 else min start len)
      in drop (nat k) xs)"

text \<open>The sum \<open>charCount\<close> built by the five guarded \<open>+=\<close> statements.\<close>

definition charCountOf :: "WordCountSettings \<Rightarrow> TextAnalysisResult \<Rightarrow> int" where
  "charCountOf st r =
     (let charCount = 0;
          charCount = (if trackChinese st then charCount + chinese r else charCount);
          charCount = (if trackEnglish st then charCount + english r else charCount);
          charCount = (if trackPunctuation st then charCount + punctuation r else charCount);
          charCount = (if trackNumbers st then charCount + numbers r else charCount);
          charCount = (if trackSpaces st then charCount + spaces r else charCount)
      in charCount)"

definition charChangeOf :: "int \<Rightarrow> string \<Rightarrow> TextAnalysisResult \<Rightarrow> int \<Rightarrow> CharChange" where
  "charChangeOf now fname r tot =
     \<lparr>chinese = chinese r, english = english r, punctuation = punctuation r,
      numbers = numbers r, spaces = spaces r, words = words r, total = tot,
      timestamp = now, action = add, fileName = fname\<rparr>"

text \<open>
  The record that \<open>updateWordCount\<close> stores under today's key, from the record it
  found (or created): the eight assignments, the \<open>push\<close>, the truncation.
  \<open>charCount || 0\<close> is \<open>charCount\<close> for an integer.
\<close>

definition updatedStats ::
  "WordCountSettings \<Rightarrow> int \<Rightarrow> string \<Rightarrow> TextAnalysisResult \<Rightarrow> DailyStats \<Rightarrow> DailyStats" where
  "updatedStats st now fname r existingStats =
     (let tot = charCountOf st r;
          compl = (tot > 0);
          charChange = charChangeOf now fname r tot;
          e = existingStats\<lparr>chinese := chinese r, english := english r,
                punctuation := punctuation r, numbers := numbers r, spaces := spaces r,
                words := words r, total := tot, completed := compl\<rparr>;
          e = e\<lparr>charChanges := charChanges e @ [charChange]\<rparr>
      in if length (charChanges e) > MAX_CHAR_CHANGES
         then e\<lparr>charChanges := js_slice (- int MAX_CHAR_CHANGES) (charChanges e)\<rparr>
         else e)"

text \<open>
  One call of \<open>updateWordCount\<close>.  Its inputs from the host: \<open>today\<close> is the result
  of \<open>getTodayString()\<close>, \<open>now\<close> of \<open>Date.now()\<close>, and \<open>saveOk\<close> tells whether
  \<open>saveData\<close> succeeds.  When it fails the error is rethrown after the day record
  has been stored in the map, and the streak is not advanced.
\<close>

definition updateWordCount ::
  "date_parser \<Rightarrow> string \<Rightarrow> int \<Rightarrow> bool \<Rightarrow> string \<Rightarrow> TextAnalysisResult \<Rightarrow> StatsManager
     \<Rightarrow> outcome \<times> StatsManager" where
  "updateWordCount parse today now saveOk fname r m =
     (let existingStats = (case dailyStats m today of
                             Some e \<Rightarrow> e
                           | None \<Rightarrow> createEmptyStats today);
          m1 = m\<lparr>dailyStats := (dailyStats m)(today \<mapsto>
                  updatedStats (settings m) now fname r existingStats)\<rparr>
      in if saveOk
         then (Resolved, m1\<lparr>streakData := updateStreakData parse (streakData m1) today\<rparr>)
         else (Rejected, m1))"

definition resetData :: "bool \<Rightarrow> StatsManager \<Rightarrow> outcome \<times> StatsManager" where
  "resetData saveOk m =
     (let m1 = m\<lparr>dailyStats := Map.empty, streakData := initialStreak\<rparr>
      in (if saveOk then Resolved else Rejected, m1))"

text \<open>\<open>updateSettings\<close>: the loop over \<open>dailyStats.values()\<close> assigns \<open>goal\<close> and
  \<open>completed\<close> of every stored record.\<close>

definition updateSettings :: "WordCountSettings \<Rightarrow> StatsManager \<Rightarrow> StatsManager" where
  "updateSettings newSettings m =
     m\<lparr>settings := newSettings,
       dailyStats := (\<lambda>k. map_option (\<lambda>stats. stats\<lparr>goal := 0, completed := (total stats > 0)\<rparr>)
                            (dailyStats m k))\<rparr>"

text \<open>The manager as its constructor leaves it.\<close>

definition newStatsManager :: "WordCountSettings \<Rightarrow> StatsManager" where
  "newStatsManager st = \<lparr>dailyStats = Map.empty, streakData = initialStreak, settings = st\<rparr>"

subsection \<open>Loading (StatsManager.loadData)\<close>

text \<open>
  What \<open>plugin.loadData()\<close> returns is untyped (\<open>any\<close>): the fields of a stored
  item hold whatever the data file holds.  \<open>jsval\<close> are the JSON primitives, with
  \<open>JUndefined\<close> for a missing field and \<open>JNaN\<close> for the one number that is not
  an integer here; a stored change list is missing (or \<open>null\<close>) or an array.
\<close>

datatype jsval = JUndefined | JNull | JBool bool | JNum int | JNaN | JStr string

record item =
  item_date :: jsval
  item_chinese :: jsval
  item_english :: jsval
  item_punctuation :: jsval
  item_numbers :: jsval
  item_spaces :: jsval
  item_words :: jsval
  item_total :: jsval
  item_goal :: jsval
  item_completed :: jsval
  item_charChanges :: "CharChange list option"

text \<open>An element of the stored array: \<open>null\<close> (reading a property of it throws), or
  a value with properties.\<close>

datatype element = Nullish | Obj item

text \<open>The result of \<open>await plugin.loadData()\<close>: the promise rejects, or resolves to
  something that is not an array (\<open>null\<close>, a settings object), or to an array.\<close>

datatype stored = LoadRejects | NotArray | StoredArray "element list"

text \<open>\<open>ToBoolean\<close>, and \<open>a || b\<close>.\<close>

fun truthy :: "jsval \<Rightarrow> bool" where
  "truthy JUndefined = False"
| "truthy JNull = False"
| "truthy (JBool b) = b"
| "truthy (JNum n) = (n \<noteq> 0)"
| "truthy JNaN = False"
| "truthy (JStr s) = (s \<noteq> [])"

definition js_or :: "jsval \<Rightarrow> jsval \<Rightarrow> jsval" where
  "js_or a b = (if truthy a then a else b)"

text \<open>\<open>new Date(value).getTime()\<close>: a string is parsed, any other value is converted
  to a number and clipped to the range of time values.\<close>

fun newDate :: "date_parser \<Rightarrow> jsval \<Rightarrow> int option" where
  "newDate parse (JStr s) = parse s"
| "newDate parse (JNum n) = (if \<bar>n\<bar> \<le> 8640000000000000 then Some n else None)"
| "newDate parse (JBool b) = Some (if b then 1 else 0)"
| "newDate parse JNull = Some 0"
| "newDate parse JUndefined = None"
| "newDate parse JNaN = None"

text \<open>The callback of \<open>historicalData.map\<close>.\<close>

definition validated :: "item \<Rightarrow> item" where
  "validated it =
     \<lparr>item_date = js_or (item_date it) (JStr []),
      item_chinese = js_or (item_chinese it) (JNum 0),
      item_english = js_or (item_english it) (JNum 0),
      item_punctuation = js_or (item_punctuation it) (JNum 0),
      item_numbers = js_or (item_numbers it) (JNum 0),
      item_spaces = js_or (item_spaces it) (JNum 0),
      item_words = js_or (item_words it) (JNum 0),
      item_total = js_or (item_total it) (JNum 0),
      item_goal = JNum 0,
      item_completed = js_or (item_completed it) (JBool False),
      item_charChanges = (case item_charChanges it of None \<Rightarrow> Some [] | Some cs \<Rightarrow> Some cs)\<rparr>"

text \<open>\<open>historicalData.map(...)\<close>; \<open>None\<close> when the callback throws on a \<open>null\<close>
  element.\<close>

fun validatedData :: "element list \<Rightarrow> item list option" where
  "validatedData [] = Some []"
| "validatedData (Nullish # xs) = None"
| "validatedData (Obj it # xs) =
     (case validatedData xs of None \<Rightarrow> None | Some vs \<Rightarrow> Some (validated it # vs))"

text \<open>
  \<open>Date.prototype.setDate\<close> works on local time, which the host's time zone
  defines: \<open>LocalTZA\<close> gives the offset of local time from UTC in milliseconds, at a
  UTC time value (second argument \<open>True\<close>) or at a local one (\<open>False\<close>), as in
  the language definition.  It is an input of the model, as the parser of dates is.
\<close>

type_synonym time_zone = "int \<Rightarrow> bool \<Rightarrow> int"

definition LocalTime :: "time_zone \<Rightarrow> int \<Rightarrow> int" where
  "LocalTime LocalTZA t = t + LocalTZA t True"

definition UTC :: "time_zone \<Rightarrow> int \<Rightarrow> int" where
  "UTC LocalTZA t = t - LocalTZA t False"

definition Day :: "int \<Rightarrow> int" where
  "Day t = t div msPerDay"

definition TimeWithinDay :: "int \<Rightarrow> int" where
  "TimeWithinDay t = t mod msPerDay"

definition TimeClip :: "int \<Rightarrow> int option" where
  "TimeClip time = (if \<bar>time\<bar> \<le> 8640000000000000 then Some time else None)"

text \<open>
  \<open>const thirtyDaysAgo = new Date(today); thirtyDaysAgo.setDate(today.getDate() - 30)\<close>,
  for the time value \<open>today\<close> of \<open>new Date()\<close>.  \<open>setDate(dt)\<close> takes the local
  time \<open>t\<close> of the date, replaces its day by
  \<open>MakeDay(YearFromTime(t), MonthFromTime(t), dt)\<close>, keeps the time within the day,
  and converts back to UTC.  \<open>MakeDay(y, m, dt)\<close> is the day number of the first of
  the month plus \<open>dt - 1\<close>; with \<open>dt = DateFromTime(t) - 30\<close> that is
  \<open>Day(t) - 30\<close>.  \<open>None\<close> is the invalid date.
\<close>

definition thirtyDaysAgo :: "time_zone \<Rightarrow> int \<Rightarrow> int option" where
  "thirtyDaysAgo LocalTZA today =
     (let t = LocalTime LocalTZA today;
          moved = (Day t - 30) * msPerDay + TimeWithinDay t
      in TimeClip (UTC LocalTZA moved))"

text \<open>The callback of \<open>validatedData.filter\<close>.  A comparison with an invalid date
  is false.\<close>

definition inWindow :: "date_parser \<Rightarrow> time_zone \<Rightarrow> int \<Rightarrow> item \<Rightarrow> bool" where
  "inWindow parse LocalTZA today it =
     (case newDate parse (item_date it) of
        None \<Rightarrow> False
      | Some itemDate \<Rightarrow>
          (case thirtyDaysAgo LocalTZA today of
             None \<Rightarrow> False
           | Some cutoff \<Rightarrow> itemDate \<ge> cutoff) \<and>
          itemDate \<le> today)"

text \<open>\<open>new Map(entries)\<close>: a later entry replaces an earlier one with the same key.\<close>

fun newMap :: "('k \<times> 'v) list \<Rightarrow> ('k \<rightharpoonup> 'v) \<Rightarrow> ('k \<rightharpoonup> 'v)" where
  "newMap [] m = m"
| "newMap ((k, v) # es) m = newMap es (m(k \<mapsto> v))"

text \<open>
  \<open>loadData\<close>: the outcome of the promise and, when the assignment to
  \<open>this.dailyStats\<close> is reached, the map assigned (\<open>None\<close>: the day records stay
  as they were).
\<close>

definition loadData ::
  "date_parser \<Rightarrow> time_zone \<Rightarrow> int \<Rightarrow> stored \<Rightarrow> outcome \<times> (jsval \<rightharpoonup> item) option" where
  "loadData parse LocalTZA today historicalData =
     (case historicalData of
        LoadRejects \<Rightarrow> (Rejected, None)
      | NotArray \<Rightarrow> (Resolved, None)
      | StoredArray xs \<Rightarrow>
          (case validatedData xs of
             None \<Rightarrow> (Rejected, None)
           | Some vs \<Rightarrow>
               (let filteredData = filter (inWindow parse LocalTZA today) vs
                in (Resolved,
                    Some (newMap (map (\<lambda>it. (item_date it, it)) filteredData) Map.empty)))))"

text \<open>The record a loaded item is when every field has the type that
  \<open>DailyStats\<close> declares.\<close>

definition asDailyStats :: "item \<Rightarrow> DailyStats option" where
  "asDailyStats it =
     (case (item_date it, item_chinese it, item_english it, item_punctuation it,
            item_numbers it, item_spaces it, item_words it, item_total it, item_goal it,
            item_completed it, item_charChanges it) of
        (JStr d, JNum c, JNum e, JNum p, JNum n, JNum s, JNum w, JNum t, JNum g, JBool b, Some cs) \<Rightarrow>
          Some \<lparr>chinese = c, english = e, punctuation = p, numbers = n, spaces = s, words = w,
                total = t, date = d, goal = g, completed = b, charChanges = cs\<rparr>
      | _ \<Rightarrow> None)"

subsection \<open>Sequences of calls\<close>

text \<open>The calls a client can make on a \<open>StatsManager\<close>, with the host inputs of
  each call; \<open>call\<close> keeps the state a call leaves behind whether its promise
  resolves or rejects.\<close>

datatype manager_call =
    UpdateWordCount string int bool string TextAnalysisResult
  | ResetData bool
  | UpdateSettings WordCountSettings

fun call :: "date_parser \<Rightarrow> manager_call \<Rightarrow> StatsManager \<Rightarrow> StatsManager" where
  "call parse (UpdateWordCount today now saveOk fname r) m =
     snd (updateWordCount parse today now saveOk fname r m)"
| "call parse (ResetData saveOk) m = snd (resetData saveOk m)"
| "call parse (UpdateSettings newSettings) m = updateSettings newSettings m"

fun calls :: "date_parser \<Rightarrow> manager_call list \<Rightarrow> StatsManager \<Rightarrow> StatsManager" where
  "calls parse [] m = m"
| "calls parse (c # cs) m = calls parse cs (call parse c m)"

text \<open>The change list stored for a day (empty when the day has no record), and the
  entries that the \<open>updateWordCount\<close> calls of a sequence push for a day, in call
  order.\<close>

definition changesOf :: "StatsManager \<Rightarrow> string \<Rightarrow> CharChange list" where
  "changesOf m d = (case dailyStats m d of None \<Rightarrow> [] | Some e \<Rightarrow> charChanges e)"

fun pushed :: "WordCountSettings \<Rightarrow> string \<Rightarrow> manager_call list \<Rightarrow> CharChange list" where
  "pushed st d [] = []"
| "pushed st d (UpdateWordCount today now saveOk fname r # cs) =
     (if today = d then charChangeOf now fname r (charCountOf st r) # pushed st d cs
      else pushed st d cs)"
| "pushed st d (c # cs) = pushed st d cs"

fun isUpdate :: "manager_call \<Rightarrow> bool" where
  "isUpdate (UpdateWordCount today now saveOk fname r) = True"
| "isUpdate c = False"

section \<open>Text analysis (TextAnalyzer, utils/constants.ts)\<close>

text \<open>
  A JavaScript string is a sequence of UTF-16 code units, and a regular expression
  without the \<open>u\<close> flag matches code unit by code unit: a document is a
  \<open>nat list\<close> of code units.  \<open>utf16\<close> writes an ASCII literal as such a list.
\<close>

type_synonym jsstring = "nat list"

definition utf16 :: "string \<Rightarrow> jsstring" where
  "utf16 s = map of_char s"

definition inRange :: "nat \<Rightarrow> nat \<Rightarrow> nat \<Rightarrow> bool" where
  "inRange lo hi c = (lo \<le> c \<and> c \<le> hi)"

subsection \<open>Character classes\<close>

text \<open>\<open>\s\<close> (the white space and line terminator code units; \<open>trim\<close> strips the
  same set), \<open>\w\<close>, and the line terminators after which \<open>^\<close> matches under the
  \<open>m\<close> flag.\<close>

definition isSpace :: "nat \<Rightarrow> bool" where
  "isSpace c =
     (inRange 9 13 c \<or> c = 32 \<or> c = 0xa0 \<or> c = 0x1680 \<or> inRange 0x2000 0x200a c \<or>
      c = 0x2028 \<or> c = 0x2029 \<or> c = 0x202f \<or> c = 0x205f \<or> c = 0x3000 \<or> c = 0xfeff)"

definition isWordChar :: "nat \<Rightarrow> bool" where
  "isWordChar c = (inRange 97 122 c \<or> inRange 65 90 c \<or> inRange 48 57 c \<or> c = 95)"

definition isLineTerminator :: "nat \<Rightarrow> bool" where
  "isLineTerminator c = (c = 10 \<or> c = 13 \<or> c = 0x2028 \<or> c = 0x2029)"

text \<open>\<open>REGEX_PATTERNS\<close>, each tested on a one-character string.\<close>

definition NUMBERS :: "nat \<Rightarrow> bool" where
  "NUMBERS c = inRange 48 57 c"

definition FULL_WIDTH_NUMBERS :: "nat \<Rightarrow> bool" where
  "FULL_WIDTH_NUMBERS c = inRange 0xff10 0xff19 c"

definition ENGLISH :: "nat \<Rightarrow> bool" where
  "ENGLISH c = (inRange 97 122 c \<or> inRange 65 90 c)"

text \<open>
  The members that \<open>CHINESE\<close> and \<open>PUNCTUATION\<close> share.  After the five ranges
  written with \<open>\u\<close> the source goes on with
  \<open>\U00020000-\U0002a6df\U0002a700-\U0002b73f\U0002b740-\U0002b81f\U0002b820-\U0002ceaf\<close>.
  Without the \<open>u\<close> flag \<open>\U\<close> is the letter \<open>U\<close>, so these are the single
  characters \<open>U\<close>, the digits and the letters \<open>a\<close> to \<open>f\<close> that occur, and four
  times the range \<open>0-\U\<close>, from the digit 0 (48) to \<open>U\<close> (85), which contains the
  digits and \<open>U\<close>.
\<close>

definition chineseClass :: "nat \<Rightarrow> bool" where
  "chineseClass c =
     (inRange 0x4e00 0x9fff c \<or> inRange 0x3400 0x4dbf c \<or> inRange 0xf900 0xfaff c \<or>
      inRange 0x3300 0x33ff c \<or> inRange 0xfe30 0xfe4f c \<or> inRange 0xf900 0xfaff c \<or>
      inRange 48 85 c \<or> inRange 97 102 c)"

definition CHINESE :: "nat \<Rightarrow> bool" where
  "CHINESE c = chineseClass c"

definition PUNCTUATION :: "nat \<Rightarrow> bool" where
  "PUNCTUATION c = (\<not> (isWordChar c \<or> isSpace c \<or> chineseClass c))"

definition FULL_WIDTH_PUNCTUATION :: "nat \<Rightarrow> bool" where
  "FULL_WIDTH_PUNCTUATION c =
     (inRange 0xff01 0xff0f c \<or> inRange 0xff1a 0xff20 c \<or> inRange 0xff3b 0xff40 c \<or>
      inRange 0xff5b 0xff60 c \<or> inRange 0xff61 0xff65 c \<or> inRange 0xffe0 0xffe6 c)"

text \<open>\<open>/^[IVXLCDM]+$/i\<close> on a whole word: not empty, every code unit one of the
  seven letters in either case.\<close>

definition ROMAN_NUMERALS :: "jsstring \<Rightarrow> bool" where
  "ROMAN_NUMERALS word = (word \<noteq> [] \<and> list_all (\<lambda>c. c \<in> set (utf16 ''IVXLCDMivxlcdm'')) word)"

text \<open>\<open>text.substring(i, j)\<close> for \<open>i \<le> j\<close>.\<close>

definition substring :: "jsstring \<Rightarrow> nat \<Rightarrow> nat \<Rightarrow> jsstring" where
  "substring text i j = take (j - i) (drop i text)"

subsection \<open>TextAnalyzer.countCharacters\<close>

definition zeroCounts :: TextAnalysisResult where
  "zeroCounts = \<lparr>chinese = 0, english = 0, punctuation = 0, numbers = 0, spaces = 0, words = 0\<rparr>"

text \<open>The inner \<open>while\<close> loop: the first index from \<open>j\<close> on that is past the text or
  not at a letter.\<close>

function wordEnd :: "jsstring \<Rightarrow> nat \<Rightarrow> nat" where
  "wordEnd text j = (if j < length text \<and> ENGLISH (text ! j) then wordEnd text (j + 1) else j)"
  by pat_completeness auto
termination
  by (relation "measure (\<lambda>(text, j). length text - j)") auto

declare wordEnd.simps [simp del]

text \<open>
  One pass of the body of the \<open>for\<close> loop at index \<open>i < text.length\<close>: the value
  of \<open>i\<close> when the body ends (the loop header then increments it) and the
  counters.
\<close>

definition countBody ::
  "WordCountSettings \<Rightarrow> jsstring \<Rightarrow> nat \<Rightarrow> TextAnalysisResult \<Rightarrow> nat \<times> TextAnalysisResult" where
  "countBody st text i acc =
     (let char = text ! i in
      if trackNumbers st \<and> (NUMBERS char \<or> FULL_WIDTH_NUMBERS char) then
        (i, acc\<lparr>numbers := numbers acc + 1\<rparr>)
      else if trackEnglish st \<and> ENGLISH char then
        (if i = 0 \<or> \<not> ENGLISH (text ! (i - 1)) then
           (let j = wordEnd text i;
                word = substring text i j;
                acc1 =
                  (if \<not> ROMAN_NUMERALS word \<and> length word > 1 then
                     (let a = acc\<lparr>english := english acc + int (length word)\<rparr>
                      in if showWordCount st then a\<lparr>words := words a + 1\<rparr> else a)
                   else if length word = 1 \<and> ENGLISH (word ! 0) then
                     acc\<lparr>english := english acc + 1\<rparr>
                   else acc)
            in (j - 1, acc1))
         else (i, acc))
      else if trackChinese st \<and> CHINESE char then
        (i, acc\<lparr>chinese := chinese acc + 1\<rparr>)
      else if trackPunctuation st \<and> (PUNCTUATION char \<or> FULL_WIDTH_PUNCTUATION char) then
        (i, acc\<lparr>punctuation := punctuation acc + 1\<rparr>)
      else if trackSpaces st \<and> (char = 32 \<or> char = 9 \<or> char = 10 \<or> char = 13) then
        (i, acc\<lparr>spaces := spaces acc + 1\<rparr>)
      else (i, acc))"

lemma wordEnd_ge: "j \<le> wordEnd t j"
proof (induction t j rule: wordEnd.induct)
  case (1 t j)
  show ?case
  proof (cases "j < length t \<and> ENGLISH (t ! j)")
    case True
    with "1.IH" have "j + 1 \<le> wordEnd t (j + 1)" by simp
    moreover from True have "wordEnd t j = wordEnd t (j + 1)"
      by (simp add: wordEnd.simps[of t j])
    ultimately show ?thesis by simp
  next
    case False
    then have "wordEnd t j = j"
      by (auto simp: wordEnd.simps[of t j])
    then show ?thesis by simp
  qed
qed

lemma wordEnd_gt: "j < length t \<Longrightarrow> ENGLISH (t ! j) \<Longrightarrow> j < wordEnd t j"
  using wordEnd_ge[of "j + 1" t] by (simp add: wordEnd.simps[of t j])

lemma countBody_advances:
  "i < length t \<Longrightarrow> countBody st t i acc = (i', acc') \<Longrightarrow> i \<le> i'"
  using wordEnd_gt[of i t]
  by (auto simp: countBody_def Let_def split: if_splits)

function countLoop ::
  "WordCountSettings \<Rightarrow> jsstring \<Rightarrow> nat \<Rightarrow> TextAnalysisResult \<Rightarrow> TextAnalysisResult" where
  "countLoop st text i acc =
     (if i < length text
      then (case countBody st text i acc of (i', acc') \<Rightarrow> countLoop st text (i' + 1) acc')
      else acc)"
  by pat_completeness auto
termination
proof (relation "measure (\<lambda>(st, t, i, acc). length t - i)", goal_cases)
  case 1
  show ?case by simp
next
  case (2 st t i acc i' acc')
  then have "countBody st t i acc = (i', acc')" by simp
  with 2 have "i \<le> i'" using countBody_advances by blast
  with 2 show ?case by simp
qed

declare countLoop.simps [simp del]

definition countCharacters :: "WordCountSettings \<Rightarrow> jsstring \<Rightarrow> TextAnalysisResult" where
  "countCharacters st text = countLoop st text 0 zeroCounts"

subsection \<open>TextAnalyzer.preprocessText\<close>

text \<open>
  \<open>String.prototype.replace\<close> with a global regular expression, for the patterns of
  the pipeline.  A pattern is a function that, at a position of the subject, given
  whether \<open>^\<close> holds there and the rest of the subject from there, returns the
  length of its match and the replacement text, or \<open>None\<close>.  The search resumes
  at the end of a match; a position without a match copies one code unit.  After an
  empty match the next code unit is copied.
\<close>

type_synonym pattern = "bool \<Rightarrow> jsstring \<Rightarrow> (nat \<times> jsstring) option"

definition lineStart :: "nat option \<Rightarrow> bool" where
  "lineStart prev = (case prev of None \<Rightarrow> True | Some c \<Rightarrow> isLineTerminator c)"

function replaceAll :: "pattern \<Rightarrow> nat option \<Rightarrow> jsstring \<Rightarrow> jsstring" where
  "replaceAll p prev [] = (case p (lineStart prev) [] of Some (n, r) \<Rightarrow> r | None \<Rightarrow> [])"
| "replaceAll p prev (c # cs) =
     (case p (lineStart prev) (c # cs) of
        None \<Rightarrow> c # replaceAll p (Some c) cs
      | Some (n, r) \<Rightarrow>
          (if n = 0 then r @ c # replaceAll p (Some c) cs
           else r @ replaceAll p (Some ((c # cs) ! (n - 1))) (drop n (c # cs))))"
  by pat_completeness auto
termination
  by (relation "measure (\<lambda>(p, prev, s). length s)") auto

declare replaceAll.simps [simp del]

text \<open>The first index at which \<open>pat\<close> occurs in \<open>s\<close> (\<open>indexOf\<close>), and the longest
  prefix of code units satisfying a predicate, which is what a greedy \<open>[...]*\<close>
  consumes.\<close>

fun indexOfFrom :: "jsstring \<Rightarrow> jsstring \<Rightarrow> nat \<Rightarrow> nat option" where
  "indexOfFrom pat [] k = (if pat = [] then Some k else None)"
| "indexOfFrom pat (c # cs) k =
     (if take (length pat) (c # cs) = pat then Some k else indexOfFrom pat cs (k + 1))"

definition startsWith :: "jsstring \<Rightarrow> jsstring \<Rightarrow> bool" where
  "startsWith s pat = (take (length pat) s = pat)"

text \<open>\<open>/^---[\s\S]*?---\n/gm\<close>: at a line start, three hyphens, then up to the
  first \<open>---\n\<close> after them.\<close>

definition frontmatterPattern :: pattern where
  "frontmatterPattern bol s =
     (if bol \<and> startsWith s (utf16 ''---'') then
        (case indexOfFrom (utf16 ''---'' @ [10]) (drop 3 s) 0 of
           None \<Rightarrow> None
         | Some k \<Rightarrow> Some (3 + k + 4, []))
      else None)"

text \<open>\<open>/```[\s\S]*?```/g\<close>.\<close>

definition codeBlockPattern :: pattern where
  "codeBlockPattern bol s =
     (if startsWith s (utf16 ''```'') then
        (case indexOfFrom (utf16 ''```'') (drop 3 s) 0 of
           None \<Rightarrow> None
         | Some k \<Rightarrow> Some (3 + k + 3, []))
      else None)"

text \<open>\<open>/`[^`]+`/g\<close>: a backquote, the longest run of other code units, which must
  not be empty, and a backquote.\<close>

definition inlineCodePattern :: pattern where
  "inlineCodePattern bol s =
     (case s of
        [] \<Rightarrow> None
      | c # r \<Rightarrow>
          (if c = 96 then
             (let run = takeWhile (\<lambda>x. x \<noteq> 96) r in
              if run \<noteq> [] \<and> startsWith (drop (length run) r) [96]
              then Some (1 + length run + 1, []) else None)
           else None))"

text \<open>\<open>/\[([^\]]*)\]\([^)]*\)/g\<close> with the replacement \<open>$1\<close>, on the text after the
  opening bracket: the longest run without \<open>]\<close>, then \<open>](\<close>, the longest run
  without \<open>)\<close>, then \<open>)\<close>.  The result is the length matched after the bracket,
  and group 1.\<close>

definition bracketTail :: "jsstring \<Rightarrow> (nat \<times> jsstring) option" where
  "bracketTail r =
     (let label = takeWhile (\<lambda>x. x \<noteq> 93) r;
          r1 = drop (length label) r in
      if startsWith r1 [93, 40] then
        (let target = takeWhile (\<lambda>x. x \<noteq> 41) (drop 2 r1);
             r2 = drop (length target) (drop 2 r1) in
         if startsWith r2 [41]
         then Some (length label + 2 + length target + 1, label) else None)
      else None)"

text \<open>\<open>/!\[([^\]]*)\]\([^)]*\)/g\<close> and \<open>/\[([^\]]*)\]\([^)]*\)/g\<close>.\<close>

definition imagePattern :: pattern where
  "imagePattern bol s =
     (if startsWith s [33, 91] then
        (case bracketTail (drop 2 s) of
           None \<Rightarrow> None
         | Some (n, label) \<Rightarrow> Some (2 + n, label))
      else None)"

definition linkPattern :: pattern where
  "linkPattern bol s =
     (if startsWith s [91] then
        (case bracketTail (drop 1 s) of
           None \<Rightarrow> None
         | Some (n, label) \<Rightarrow> Some (1 + n, label))
      else None)"

text \<open>\<open>/^#{1,6}\s+/gm\<close>: one to six \<open>#\<close> and then white space; with seven or more
  \<open>#\<close> the white space cannot follow at most six of them.\<close>

definition headingPattern :: pattern where
  "headingPattern bol s =
     (let hashes = takeWhile (\<lambda>x. x = 35) s;
          ws = takeWhile isSpace (drop (length hashes) s) in
      if bol \<and> 1 \<le> length hashes \<and> length hashes \<le> 6 \<and> ws \<noteq> []
      then Some (length hashes + length ws, []) else None)"

text \<open>\<open>/^>\s*/gm\<close>.\<close>

definition quotePattern :: pattern where
  "quotePattern bol s =
     (if bol \<and> startsWith s [62]
      then Some (1 + length (takeWhile isSpace (drop 1 s)), []) else None)"

text \<open>\<open>/^[-*+]\s+/gm\<close>.\<close>

definition listPattern :: pattern where
  "listPattern bol s =
     (case s of
        [] \<Rightarrow> None
      | c # r \<Rightarrow>
          (let ws = takeWhile isSpace r in
           if bol \<and> (c = 45 \<or> c = 42 \<or> c = 43) \<and> ws \<noteq> []
           then Some (1 + length ws, []) else None))"

text \<open>\<open>/^\[[ x]\]\s+/gm\<close>.\<close>

definition taskPattern :: pattern where
  "taskPattern bol s =
     (let ws = takeWhile isSpace (drop 3 s) in
      if bol \<and> (startsWith s (utf16 ''[ ]'') \<or> startsWith s (utf16 ''[x]'')) \<and> ws \<noteq> []
      then Some (3 + length ws, []) else None)"

text \<open>\<open>/<[^>]+>/g\<close>.\<close>

definition htmlPattern :: pattern where
  "htmlPattern bol s =
     (case s of
        [] \<Rightarrow> None
      | c # r \<Rightarrow>
          (if c = 60 then
             (let run = takeWhile (\<lambda>x. x \<noteq> 62) r in
              if run \<noteq> [] \<and> startsWith (drop (length run) r) [62]
              then Some (1 + length run + 1, []) else None)
           else None))"

text \<open>\<open>/\s+/g\<close> with the replacement of one space.\<close>

definition spacePattern :: pattern where
  "spacePattern bol s =
     (let ws = takeWhile isSpace s in
      if ws \<noteq> [] then Some (length ws, [32]) else None)"

definition trim :: "jsstring \<Rightarrow> jsstring" where
  "trim s = rev (dropWhile isSpace (rev (dropWhile isSpace s)))"

text \<open>The chain of \<open>replace\<close> calls, in the order of the source, and \<open>trim\<close>.\<close>

definition preprocessText :: "jsstring \<Rightarrow> jsstring" where
  "preprocessText text =
     trim
      (replaceAll spacePattern None
      (replaceAll htmlPattern None
      (replaceAll taskPattern None
      (replaceAll listPattern None
      (replaceAll quotePattern None
      (replaceAll headingPattern None
      (replaceAll linkPattern None
      (replaceAll imagePattern None
      (replaceAll inlineCodePattern None
      (replaceAll codeBlockPattern None
      (replaceAll frontmatterPattern None text)))))))))))"

definition analyzeText :: "WordCountSettings \<Rightarrow> jsstring \<Rightarrow> TextAnalysisResult" where
  "analyzeText st text = countCharacters st (preprocessText text)"

section \<open>The single-file plugin's stripper (WordCountPlugin.preprocessText)\<close>

text \<open>
  The state of the character loop: the index \<open>i\<close>, the text built so far and the
  five flags.  \<open>frontmatterEnd\<close> does not change once the loop runs and is a
  parameter of the loop.
\<close>

record scan =
  idx :: nat
  result :: jsstring
  inCodeBlock :: bool
  inInlineCode :: bool
  inFrontmatter :: bool
  inHtmlTag :: bool
  inMathBlock :: bool

text \<open>\<open>text.indexOf(pat, from)\<close>, \<open>None\<close> for \<open>-1\<close>; \<open>s.endsWith(pat)\<close>; the
  test \<open>i === 0 || text[i - 1] === '\n'\<close>; the number of code units from \<open>i\<close> on
  that satisfy a predicate, which is how far a \<open>while\<close> loop of the body moves its
  index.\<close>

definition indexOf :: "jsstring \<Rightarrow> jsstring \<Rightarrow> nat \<Rightarrow> nat option" where
  "indexOf text pat from = indexOfFrom pat (drop from text) from"

definition endsWith :: "jsstring \<Rightarrow> jsstring \<Rightarrow> bool" where
  "endsWith s pat = (length pat \<le> length s \<and> drop (length s - length pat) s = pat)"

definition atLineStart :: "jsstring \<Rightarrow> nat \<Rightarrow> bool" where
  "atLineStart text i = (i = 0 \<or> text ! (i - 1) = 10)"

definition runLength :: "(nat \<Rightarrow> bool) \<Rightarrow> jsstring \<Rightarrow> nat \<Rightarrow> nat" where
  "runLength P text i = length (takeWhile P (drop i text))"

text \<open>
  The blocks of the loop body after the code and formula blocks.  Each returns the
  state with which the loop goes on when the block ends in \<open>continue\<close>, its
  \<open>idx\<close> being the index after the increment of the loop header, and \<open>None\<close>
  when control falls through to the next block; no block changes the state and
  falls through.
\<close>

text \<open>HTML tags: a comment is skipped; a tag without \<open>/\<close>, or ending in \<open>/\<close>, is
  skipped and sets \<open>inHtmlTag\<close>.\<close>

definition tagBlock :: "jsstring \<Rightarrow> scan \<Rightarrow> scan option" where
  "tagBlock text s =
     (let i = idx s in
      if text ! i = 60 then
        (case indexOf text [62] i of
           None \<Rightarrow> None
         | Some closeTag \<Rightarrow>
             (let tagContent = substring text (i + 1) closeTag in
              if startsWith tagContent (utf16 ''!--'') then Some (s\<lparr>idx := closeTag + 1\<rparr>)
              else if 47 \<notin> set tagContent \<or> endsWith tagContent [47]
              then Some (s\<lparr>inHtmlTag := True, idx := closeTag + 1\<rparr>)
              else None))
      else None)"

text \<open>Links \<open>[label](target)\<close>: the label is kept.  \<open>from\<close> is where the search for
  the closing bracket starts and \<open>labelStart\<close> where the label starts.\<close>

definition bracketBlock :: "jsstring \<Rightarrow> scan \<Rightarrow> nat \<Rightarrow> nat \<Rightarrow> scan option" where
  "bracketBlock text s from labelStart =
     (case indexOf text [93] from of
        None \<Rightarrow> None
      | Some closeBracket \<Rightarrow>
          (if closeBracket + 1 < length text \<and> text ! (closeBracket + 1) = 40 then
             (case indexOf text [41] (closeBracket + 2) of
                None \<Rightarrow> None
              | Some closeParen \<Rightarrow>
                  Some (s\<lparr>result := result s @ substring text labelStart closeBracket,
                          idx := closeParen + 1\<rparr>))
           else None))"

definition linkBlock :: "jsstring \<Rightarrow> scan \<Rightarrow> scan option" where
  "linkBlock text s =
     (let i = idx s in
      if text ! i = 91 \<and> \<not> inInlineCode s then bracketBlock text s i (i + 1) else None)"

definition imageBlock :: "jsstring \<Rightarrow> scan \<Rightarrow> scan option" where
  "imageBlock text s =
     (let i = idx s in
      if text ! i = 33 \<and> i + 1 < length text \<and> text ! (i + 1) = 91 \<and> \<not> inInlineCode s
      then bracketBlock text s (i + 2) (i + 2) else None)"

text \<open>Heading markers: the two \<open>while\<close> loops move \<open>i\<close> past the \<open>#\<close> and past
  the spaces; after \<open>i--\<close> and the increment the loop goes on there.\<close>

definition headingBlock :: "jsstring \<Rightarrow> scan \<Rightarrow> scan option" where
  "headingBlock text s =
     (let i = idx s in
      if text ! i = 35 \<and> atLineStart text i then
        (let i1 = i + runLength (\<lambda>c. c = 35) text i;
             i2 = i1 + runLength (\<lambda>c. c = 32) text i1
         in Some (s\<lparr>idx := i2\<rparr>))
      else None)"

text \<open>Quote markers: the \<open>while\<close> loop starts at \<open>i\<close> itself, where the character
  is \<open>></\<close>; after \<open>i--\<close> and the increment the loop goes on at the index the
  \<open>while\<close> loop reached.\<close>

definition quoteBlock :: "jsstring \<Rightarrow> scan \<Rightarrow> scan option" where
  "quoteBlock text s =
     (let i = idx s in
      if text ! i = 62 \<and> atLineStart text i
      then Some (s\<lparr>idx := i + runLength (\<lambda>c. c = 32) text i\<rparr>)
      else None)"

definition listBlock :: "jsstring \<Rightarrow> scan \<Rightarrow> scan option" where
  "listBlock text s =
     (let i = idx s; char = text ! i in
      if (char = 45 \<or> char = 42 \<or> char = 43) \<and> atLineStart text i \<and>
         i + 1 < length text \<and> text ! (i + 1) = 32
      then Some (s\<lparr>idx := i + 2\<rparr>)
      else None)"

definition taskBlock :: "jsstring \<Rightarrow> scan \<Rightarrow> scan option" where
  "taskBlock text s =
     (let i = idx s in
      if text ! i = 91 \<and> atLineStart text i \<and> i + 1 < length text \<and>
         (text ! (i + 1) = 32 \<or> text ! (i + 1) = 120) then
        (case indexOf text [93] (i + 2) of
           None \<Rightarrow> None
         | Some closeBracket \<Rightarrow>
             (if closeBracket + 1 < length text \<and> text ! (closeBracket + 1) = 32
              then Some (s\<lparr>idx := closeBracket + 2\<rparr>) else None))
      else None)"

text \<open>Horizontal rules: \<open>j\<close> runs over the hyphens, and when there are three or
  more and the line ends there, on to the line feed; the loop goes on after it.\<close>

definition ruleBlock :: "jsstring \<Rightarrow> scan \<Rightarrow> scan option" where
  "ruleBlock text s =
     (let i = idx s in
      if text ! i = 45 \<and> atLineStart text i then
        (let j = i + runLength (\<lambda>c. c = 45) text i in
         if j - i \<ge> 3 \<and> (j = length text \<or> text ! j = 10) then
           (let j1 = j + runLength (\<lambda>c. c \<noteq> 10) text j in Some (s\<lparr>idx := j1 + 1\<rparr>))
         else None)
      else None)"

text \<open>Table rows: a line that starts with \<open>|\<close> and contains a hyphen is skipped.\<close>

definition tableBlock :: "jsstring \<Rightarrow> scan \<Rightarrow> scan option" where
  "tableBlock text s =
     (let i = idx s in
      if text ! i = 124 \<and> atLineStart text i then
        (let j = i + runLength (\<lambda>c. c \<noteq> 10) text i;
             line = substring text i j in
         if 45 \<in> set line then Some (s\<lparr>idx := j + 1\<rparr>) else None)
      else None)"

text \<open>The first block that ends in \<open>continue\<close>, in the order of the source.\<close>

fun firstBlock :: "(scan \<Rightarrow> scan option) list \<Rightarrow> scan \<Rightarrow> scan option" where
  "firstBlock [] s = None"
| "firstBlock (b # bs) s = (case b s of Some s' \<Rightarrow> Some s' | None \<Rightarrow> firstBlock bs s)"

text \<open>
  One pass of the body of the \<open>for\<close> loop at index \<open>idx s < text.length\<close>, with
  the increment of the loop header: the front matter, formula and code delimiters,
  the copy inside code and formulas, the tag block, the skip inside a tag, the
  markup blocks, and the final copy of the character.
\<close>

definition scanBody :: "jsstring \<Rightarrow> nat \<Rightarrow> scan \<Rightarrow> scan" where
  "scanBody text frontmatterEnd s =
     (let i = idx s; char = text ! i in
      if inFrontmatter s \<and> i < frontmatterEnd then
        (if i = frontmatterEnd - 1
         then s\<lparr>inFrontmatter := False, result := result s @ [10], idx := i + 1\<rparr>
         else s\<lparr>idx := i + 1\<rparr>)
      else if \<not> inInlineCode s \<and> char = 36 \<and> i + 1 < length text \<and> text ! (i + 1) = 36 then
        s\<lparr>inMathBlock := \<not> inMathBlock s, idx := i + 2\<rparr>
      else if \<not> inCodeBlock s \<and> char = 36 then
        s\<lparr>inInlineCode := \<not> inInlineCode s, idx := i + 1\<rparr>
      else if \<not> inInlineCode s \<and> char = 96 \<and> i + 2 < length text \<and>
              text ! (i + 1) = 96 \<and> text ! (i + 2) = 96 then
        s\<lparr>inCodeBlock := \<not> inCodeBlock s, idx := i + 3\<rparr>
      else if \<not> inMathBlock s \<and> char = 96 then
        s\<lparr>inInlineCode := \<not> inInlineCode s, idx := i + 1\<rparr>
      else if inCodeBlock s \<or> inInlineCode s \<or> inMathBlock s then
        s\<lparr>result := result s @ [char], idx := i + 1\<rparr>
      else
        (case tagBlock text s of
           Some s' \<Rightarrow> s'
         | None \<Rightarrow>
             (if inHtmlTag s then
                (if char = 62 then s\<lparr>inHtmlTag := False, idx := i + 1\<rparr> else s\<lparr>idx := i + 1\<rparr>)
              else
                (case firstBlock
                        [linkBlock text, imageBlock text, headingBlock text, quoteBlock text,
                         listBlock text, taskBlock text, ruleBlock text, tableBlock text] s of
                   Some s' \<Rightarrow> s'
                 | None \<Rightarrow> s\<lparr>result := result s @ [char], idx := i + 1\<rparr>))))"

text \<open>The loop.  The quote block can leave the index where it was, so the loop need
  not end: not returning is \<open>None\<close>.\<close>

partial_function (option) scanLoop :: "jsstring \<Rightarrow> nat \<Rightarrow> scan \<Rightarrow> jsstring option" where
  "scanLoop text frontmatterEnd s =
     (if idx s < length text
      then scanLoop text frontmatterEnd (scanBody text frontmatterEnd s)
      else Some (result s))"

text \<open>The state before the loop: a text that starts with \<open>---\<close> and has a second
  \<open>---\<close> from index 3 on has front matter up to the end of that.\<close>

definition frontmatterEndOf :: "jsstring \<Rightarrow> nat option" where
  "frontmatterEndOf text =
     (if startsWith text (utf16 ''---'') then
        (case indexOf text (utf16 ''---'') 3 of
           None \<Rightarrow> None
         | Some frontmatterEndMatch \<Rightarrow> Some (frontmatterEndMatch + 3))
      else None)"

definition initialScan :: "jsstring \<Rightarrow> scan" where
  "initialScan text =
     \<lparr>idx = 0, result = [], inCodeBlock = False, inInlineCode = False,
      inFrontmatter = (frontmatterEndOf text \<noteq> None), inHtmlTag = False,
      inMathBlock = False\<rparr>"

text \<open>The post-processing: \<open>/[ \t]+/g\<close> to one space; \<open>/\n\s*\n/g\<close> to two line
  feeds, where the greedy \<open>\s*\<close> runs to the last line feed of the white space
  after the first one; \<open>trim\<close>.\<close>

definition blanksPattern :: pattern where
  "blanksPattern bol s =
     (let ws = takeWhile (\<lambda>c. c = 32 \<or> c = 9) s in
      if ws \<noteq> [] then Some (length ws, [32]) else None)"

definition blankLinesPattern :: pattern where
  "blankLinesPattern bol s =
     (case s of
        [] \<Rightarrow> None
      | c # r \<Rightarrow>
          (let run = takeWhile isSpace r in
           if c = 10 \<and> 10 \<in> set run
           then Some (1 + (length run - length (takeWhile (\<lambda>x. x \<noteq> 10) (rev run))), [10, 10])
           else None))"

definition postProcess :: "jsstring \<Rightarrow> jsstring" where
  "postProcess r = trim (replaceAll blankLinesPattern None (replaceAll blanksPattern None r))"

definition plugin_preprocessText :: "jsstring \<Rightarrow> jsstring option" where
  "plugin_preprocessText text =
     map_option postProcess
       (scanLoop text (case frontmatterEndOf text of None \<Rightarrow> 0 | Some e \<Rightarrow> e)
          (initialScan text))"

section \<open>Notions of the specification and concrete inputs\<close>

text \<open>The sum of exactly those counters whose tracking toggle is enabled, as the
  specification words it: a disabled category contributes nothing.\<close>

definition enabledCounterSum :: "WordCountSettings \<Rightarrow> TextAnalysisResult \<Rightarrow> int" where
  "enabledCounterSum st r =
     sum_list (map snd (filter fst
       [(trackChinese st, chinese r), (trackEnglish st, english r),
        (trackPunctuation st, punctuation r), (trackNumbers st, numbers r),
        (trackSpaces st, spaces r)]))"

text \<open>The \<open>n\<close> most recently appended entries of a list kept oldest first.\<close>

definition mostRecent :: "nat \<Rightarrow> 'a list \<Rightarrow> 'a list" where
  "mostRecent n xs = drop (length xs - n) xs"

text \<open>What \<open>updateSettings\<close> establishes for a record, and every record written by
  \<open>updateWordCount\<close> already has.\<close>

definition settled :: "DailyStats \<Rightarrow> bool" where
  "settled e = (goal e = 0 \<and> completed e = (total e > 0))"

definition exampleSettings :: WordCountSettings where
  "exampleSettings =
     \<lparr>trackChinese = True, trackEnglish = True, trackPunctuation = True,
      showStatusBar = True, resetWeekly = False, trackNumbers = True,
      trackSpaces = False, showWordCount = True, enableCache = True\<rparr>"

definition exampleResult :: TextAnalysisResult where
  "exampleResult =
     \<lparr>chinese = 2, english = 5, punctuation = 1, numbers = 3, spaces = 4, words = 1\<rparr>"

text \<open>A record as the single-file plugin stored it for a day of 500 characters under
  a goal of 1000 (\<open>completed = total >= goal\<close> there), after \<open>loadData\<close> has set its
  \<open>goal\<close> to 0.\<close>

definition staleRecord :: DailyStats where
  "staleRecord =
     \<lparr>chinese = 0, english = 500, punctuation = 0, numbers = 0, spaces = 0, words = 100,
      total = 500, date = ''2024-01-01'', goal = 0, completed = False, charChanges = []\<rparr>"

definition loadedManager :: StatsManager where
  "loadedManager =
     \<lparr>dailyStats = [''2024-01-01'' \<mapsto> staleRecord], streakData = initialStreak,
      settings = exampleSettings\<rparr>"

text \<open>101 calls on one day, the call number as the time stamp.\<close>

definition manyUpdates :: "manager_call list" where
  "manyUpdates =
     map (\<lambda>n. UpdateWordCount ''2024-01-01'' (int n) True ''a.md'' exampleResult) [0..<101]"






definition pluginItem :: item where
  "pluginItem =
     \<lparr>item_date = JStr ''2024-01-01'', item_chinese = JNum 0, item_english = JNum 500,
      item_punctuation = JNum 0, item_numbers = JNum 0, item_spaces = JNum 0,
      item_words = JNum 100, item_total = JNum 500, item_goal = JNum 1000,
      item_completed = JBool False, item_charChanges = Some []\<rparr>"

definition loadTime :: int where
  "loadTime = 1704196800000"


text \<open>Two time zones: UTC, and New York in 2024, four hours behind UTC from
  2024-03-10 07:00 UTC to 2024-11-03 06:00 UTC (in local time: from 03:00 on March 10
  to 02:00 on November 3) and five hours behind otherwise.\<close>

definition utcZone :: time_zone where
  "utcZone t isUTC = 0"

definition newYork :: time_zone where
  "newYork t isUTC =
     (if isUTC then (if 1710054000000 \<le> t \<and> t < 1730613600000 then - 14400000 else - 18000000)
      else (if 1710039600000 \<le> t \<and> t < 1730599200000 then - 14400000 else - 18000000))"

text \<open>A load in New York on 2024-11-20 at 00:30 UTC (19:30 on November 19 there),
  and the stored day of above dated 2024-10-21 and 2024-10-20.\<close>

definition nyLoadTime :: int where
  "nyLoadTime = 1732062600000"



text \<open>The characters on which the patterns of \<open>preprocessText\<close> before the white
  space step depend: \<open># > - * + [\<close>, the backquote and \<open><\<close>.  Plain text has none
  of them.\<close>

definition markupChars :: jsstring where
  "markupChars = utf16 ''#>-*+[`<''"

definition plainText :: "jsstring \<Rightarrow> bool" where
  "plainText s = list_all (\<lambda>c. c \<notin> set markupChars) s"






subsection \<open>Notions for the character classifier\<close>

text \<open>The sum of two records of counters, field by field.\<close>

definition addCounts :: "TextAnalysisResult \<Rightarrow> TextAnalysisResult \<Rightarrow> TextAnalysisResult" where
  "addCounts a b =
     \<lparr>chinese = chinese a + chinese b, english = english a + english b,
      punctuation = punctuation a + punctuation b, numbers = numbers a + numbers b,
      spaces = spaces a + spaces b, words = words a + words b\<rparr>"

text \<open>\<open>w\<close> is a maximal run of letters of the text \<open>pre @ w @ post\<close>: not
  empty, all letters, with no letter next to it on either side.\<close>

definition maximalRun :: "jsstring \<Rightarrow> jsstring \<Rightarrow> jsstring \<Rightarrow> bool" where
  "maximalRun pre w post =
     (w \<noteq> [] \<and> list_all ENGLISH w \<and> (pre = [] \<or> \<not> ENGLISH (last pre)) \<and>
      (post = [] \<or> \<not> ENGLISH (hd post)))"

text \<open>The cut between two adjacent parts \<open>b\<close> and \<open>c\<close> of a text does not fall
  inside a run of letters.\<close>

definition boundary :: "jsstring \<Rightarrow> jsstring \<Rightarrow> bool" where
  "boundary b c = (b = [] \<or> c = [] \<or> \<not> ENGLISH (hd c) \<or> \<not> ENGLISH (last b))"

section \<open>Properties of the daily aggregator\<close>

lemma charCountOf_enabled: "charCountOf st r = enabledCounterSum st r"
  by (simp add: charCountOf_def enabledCounterSum_def)

lemma updatedStats_counters:
  "chinese (updatedStats st now fname r e) = chinese r"
  "english (updatedStats st now fname r e) = english r"
  "punctuation (updatedStats st now fname r e) = punctuation r"
  "numbers (updatedStats st now fname r e) = numbers r"
  "spaces (updatedStats st now fname r e) = spaces r"
  "words (updatedStats st now fname r e) = words r"
  "total (updatedStats st now fname r e) = charCountOf st r"
  "completed (updatedStats st now fname r e) = (charCountOf st r > 0)"
  "goal (updatedStats st now fname r e) = goal e"
  "date (updatedStats st now fname r e) = date e"
  by (simp_all add: updatedStats_def Let_def)

lemma dailyStats_updateWordCount:
  "dailyStats (snd (updateWordCount parse today now saveOk fname r m)) =
     (dailyStats m)(today \<mapsto> updatedStats (settings m) now fname r
        (case dailyStats m today of Some e \<Rightarrow> e | None \<Rightarrow> createEmptyStats today))"
  by (simp add: updateWordCount_def Let_def)

lemma settings_updateWordCount:
  "settings (snd (updateWordCount parse today now saveOk fname r m)) = settings m"
  by (simp add: updateWordCount_def Let_def)

text \<open>
  C1.  After \<open>updateWordCount(fileName, record)\<close>, whether or not the save
  succeeds, today's record holds the six counters of the given record, its
  \<open>total\<close> is the sum of the counters whose toggle is enabled, and \<open>completed\<close>
  is \<open>total > 0\<close>.  After two calls on the same day the total is the second
  call's total, not a sum over both calls.
\<close>

theorem updateWordCount_overwrites:
  "(\<exists>e. dailyStats (snd (updateWordCount parse today now saveOk fname r m)) today = Some e \<and>
        chinese e = chinese r \<and> english e = english r \<and> punctuation e = punctuation r \<and>
        numbers e = numbers r \<and> spaces e = spaces r \<and> words e = words r \<and>
        total e = enabledCounterSum (settings m) r \<and>
        completed e = (total e > 0)) \<and>
   (\<exists>e2. dailyStats (snd (updateWordCount parse today now2 saveOk2 fname2 r2
                 (snd (updateWordCount parse today now1 saveOk1 fname1 r1 m)))) today = Some e2 \<and>
        total e2 = enabledCounterSum (settings m) r2 \<and>
        chinese e2 = chinese r2 \<and> english e2 = english r2 \<and>
        punctuation e2 = punctuation r2 \<and> numbers e2 = numbers r2 \<and>
        spaces e2 = spaces r2 \<and> words e2 = words r2)"
  by (simp add: dailyStats_updateWordCount settings_updateWordCount updatedStats_counters
      charCountOf_enabled)

text \<open>A disabled category contributes 0 even when its count is not 0: with only
  \<open>trackChinese\<close> enabled, a record of 5 Chinese and 7 English characters gives
  the total 5.\<close>

lemma enabledCounterSum_example:
  "enabledCounterSum
     \<lparr>trackChinese = True, trackEnglish = False, trackPunctuation = False,
      showStatusBar = True, resetWeekly = False, trackNumbers = False,
      trackSpaces = False, showWordCount = True, enableCache = True\<rparr>
     \<lparr>chinese = 5, english = 7, punctuation = 0, numbers = 0, spaces = 0, words = 2\<rparr> = 5"
  by (simp add: enabledCounterSum_def)

subsection \<open>The change list\<close>

lemma js_slice_neg: "0 < n \<Longrightarrow> js_slice (- int n) xs = drop (length xs - n) xs"
  by (simp add: js_slice_def Let_def max_def nat_diff_distrib')

lemma js_slice_MAX: "js_slice (- int MAX_CHAR_CHANGES) xs = mostRecent 100 xs"
  unfolding mostRecent_def MAX_CHAR_CHANGES_def by (rule js_slice_neg) simp

lemma mostRecent_short: "length xs \<le> n \<Longrightarrow> mostRecent n xs = xs"
  by (simp add: mostRecent_def)

lemma length_mostRecent: "length (mostRecent n xs) = min n (length xs)"
  by (simp add: mostRecent_def)

lemma mostRecent_append:
  "mostRecent n (mostRecent n xs @ ys) = mostRecent n (xs @ ys)"
proof (cases "length xs \<le> n")
  case True
  then show ?thesis by (simp add: mostRecent_short)
next
  case False
  then have "length (mostRecent n xs) = n" by (simp add: length_mostRecent)
  then show ?thesis using False
    by (simp add: mostRecent_def add.commute)
qed

lemma charChanges_updatedStats:
  "charChanges (updatedStats st now fname r e) =
     mostRecent 100 (charChanges e @ [charChangeOf now fname r (charCountOf st r)])"
proof (cases "length (charChanges e @ [charChangeOf now fname r (charCountOf st r)]) > 100")
  case True
  then show ?thesis
    by (simp add: updatedStats_def Let_def js_slice_MAX) (simp add: MAX_CHAR_CHANGES_def)
next
  case False
  then show ?thesis
    by (simp add: updatedStats_def Let_def mostRecent_short) (simp add: MAX_CHAR_CHANGES_def)
qed

lemma changesOf_updateWordCount:
  "changesOf (snd (updateWordCount parse today now saveOk fname r m)) d =
     (if today = d
      then mostRecent 100
             (changesOf m d @ [charChangeOf now fname r (charCountOf (settings m) r)])
      else changesOf m d)"
  by (auto simp: dailyStats_updateWordCount changesOf_def charChanges_updatedStats
      createEmptyStats_def split: option.splits)

lemma changesOf_updates:
  "list_all isUpdate cs \<Longrightarrow>
   changesOf (calls parse cs m) d =
     (if pushed (settings m) d cs = [] then changesOf m d
      else mostRecent 100 (changesOf m d @ pushed (settings m) d cs))"
proof (induction cs arbitrary: m)
  case Nil
  then show ?case by simp
next
  case (Cons c cs)
  then obtain today now saveOk fname r where c: "c = UpdateWordCount today now saveOk fname r"
    by (cases c) auto
  let ?m1 = "snd (updateWordCount parse today now saveOk fname r m)"
  have st: "settings ?m1 = settings m" by (rule settings_updateWordCount)
  have ih: "changesOf (calls parse cs ?m1) d =
     (if pushed (settings m) d cs = [] then changesOf ?m1 d
      else mostRecent 100 (changesOf ?m1 d @ pushed (settings m) d cs))"
    using Cons.IH[of ?m1] Cons.prems st by simp
  show ?case
  proof (cases "today = d")
    case False
    then show ?thesis using ih c by (simp add: changesOf_updateWordCount)
  next
    case True
    let ?e = "charChangeOf now fname r (charCountOf (settings m) r)"
    have m1: "changesOf ?m1 d = mostRecent 100 (changesOf m d @ [?e])"
      using True by (simp add: changesOf_updateWordCount)
    show ?thesis
    proof (cases "pushed (settings m) d cs = []")
      case True
      then show ?thesis using ih c m1 \<open>today = d\<close> by simp
    next
      case False
      have "mostRecent 100 (mostRecent 100 (changesOf m d @ [?e]) @ pushed (settings m) d cs)
            = mostRecent 100 ((changesOf m d @ [?e]) @ pushed (settings m) d cs)"
        by (rule mostRecent_append)
      then show ?thesis using ih c m1 \<open>today = d\<close> False by simp
    qed
  qed
qed

text \<open>The bound as an invariant of the whole manager: no call makes a change list
  longer than 100 when none was before.\<close>

definition changesBounded :: "StatsManager \<Rightarrow> bool" where
  "changesBounded m = (\<forall>d. length (changesOf m d) \<le> 100)"

lemma changesBounded_call: "changesBounded m \<Longrightarrow> changesBounded (call parse c m)"
proof (cases c)
  case (UpdateWordCount today now saveOk fname r)
  assume "changesBounded m"
  then show ?thesis
    using UpdateWordCount
    by (auto simp: changesBounded_def changesOf_updateWordCount length_mostRecent)
next
  case (ResetData saveOk)
  then show ?thesis by (simp add: changesBounded_def changesOf_def resetData_def Let_def)
next
  case (UpdateSettings newSettings)
  assume "changesBounded m"
  then show ?thesis
    using UpdateSettings
    by (auto simp: changesBounded_def changesOf_def updateSettings_def split: option.splits)
qed

lemma changesBounded_calls: "changesBounded m \<Longrightarrow> changesBounded (calls parse cs m)"
  by (induction cs arbitrary: m) (simp_all add: changesBounded_call)

lemma changesBounded_new: "changesBounded (newStatsManager st)"
  by (simp add: changesBounded_def changesOf_def newStatsManager_def)

lemma charCountOf_example: "charCountOf exampleSettings exampleResult = 11"
  by (simp add: charCountOf_def exampleSettings_def exampleResult_def)

lemma pushed_map:
  "pushed st d (map (\<lambda>n. UpdateWordCount d (f n) saveOk fname r) ns) =
     map (\<lambda>n. charChangeOf (f n) fname r (charCountOf st r)) ns"
  by (induction ns) simp_all

lemma isUpdate_map: "list_all isUpdate (map (\<lambda>n. UpdateWordCount d (f n) saveOk fname r) ns)"
  by (induction ns) simp_all

text \<open>
  C5.  For a sequence of \<open>updateWordCount\<close> calls, the change list of a day is, when
  the sequence pushed entries for that day, the 100 most recent of the entries it had
  followed by the pushed ones, oldest first, and so has at most 100 entries; from a
  new manager it is the 100 most recent pushed entries.  No sequence of calls of a
  new manager (resets and settings changes included) leaves a change list longer
  than 100.
\<close>

theorem charChanges_window:
  "(list_all isUpdate cs \<longrightarrow>
      changesOf (calls parse cs m) d =
        (if pushed (settings m) d cs = [] then changesOf m d
         else mostRecent 100 (changesOf m d @ pushed (settings m) d cs)) \<and>
      (pushed (settings m) d cs \<noteq> [] \<longrightarrow> length (changesOf (calls parse cs m) d) \<le> 100) \<and>
      changesOf (calls parse cs (newStatsManager st)) d = mostRecent 100 (pushed st d cs) \<and>
      length (changesOf (calls parse cs (newStatsManager st)) d)
        = min 100 (length (pushed st d cs))) \<and>
   length (changesOf (calls parse cs (newStatsManager st)) d) \<le> 100"
proof
  show "list_all isUpdate cs \<longrightarrow>
      changesOf (calls parse cs m) d =
        (if pushed (settings m) d cs = [] then changesOf m d
         else mostRecent 100 (changesOf m d @ pushed (settings m) d cs)) \<and>
      (pushed (settings m) d cs \<noteq> [] \<longrightarrow> length (changesOf (calls parse cs m) d) \<le> 100) \<and>
      changesOf (calls parse cs (newStatsManager st)) d = mostRecent 100 (pushed st d cs) \<and>
      length (changesOf (calls parse cs (newStatsManager st)) d)
        = min 100 (length (pushed st d cs))"
  proof
    assume u: "list_all isUpdate cs"
    have a: "changesOf (calls parse cs m) d =
         (if pushed (settings m) d cs = [] then changesOf m d
          else mostRecent 100 (changesOf m d @ pushed (settings m) d cs))"
      using u by (rule changesOf_updates)
    have "changesOf (calls parse cs (newStatsManager st)) d =
         (if pushed st d cs = [] then [] else mostRecent 100 (pushed st d cs))"
      using changesOf_updates[OF u, of parse "newStatsManager st" d]
      by (simp add: newStatsManager_def changesOf_def)
    then have b: "changesOf (calls parse cs (newStatsManager st)) d
         = mostRecent 100 (pushed st d cs)"
      by (simp add: mostRecent_def)
    show "changesOf (calls parse cs m) d =
        (if pushed (settings m) d cs = [] then changesOf m d
         else mostRecent 100 (changesOf m d @ pushed (settings m) d cs)) \<and>
      (pushed (settings m) d cs \<noteq> [] \<longrightarrow> length (changesOf (calls parse cs m) d) \<le> 100) \<and>
      changesOf (calls parse cs (newStatsManager st)) d = mostRecent 100 (pushed st d cs) \<and>
      length (changesOf (calls parse cs (newStatsManager st)) d)
        = min 100 (length (pushed st d cs))"
      using a b by (simp add: length_mostRecent)
  qed
next
  have "changesBounded (calls parse cs (newStatsManager st))"
    by (rule changesBounded_calls) (rule changesBounded_new)
  then show "length (changesOf (calls parse cs (newStatsManager st)) d) \<le> 100"
    by (simp add: changesBounded_def)
qed

text \<open>After 101 calls with the time stamps 0 to 100 the entries stamped 1 to 100
  remain, in that order.\<close>

theorem charChanges_window_witness:
  "list_all isUpdate manyUpdates \<and>
   changesOf (calls isoDate manyUpdates (newStatsManager exampleSettings)) ''2024-01-01''
     = map (\<lambda>n. charChangeOf (int n) ''a.md'' exampleResult 11) [1..<101]"
proof -
  have u: "list_all isUpdate manyUpdates"
    unfolding manyUpdates_def by (rule isUpdate_map)
  have "changesOf (calls isoDate manyUpdates (newStatsManager exampleSettings)) ''2024-01-01''
      = mostRecent 100 (pushed exampleSettings ''2024-01-01'' manyUpdates)"
    using charChanges_window
            [of manyUpdates isoDate "newStatsManager exampleSettings" "''2024-01-01''" exampleSettings]
          u
    by blast
  then show ?thesis using u
    by (simp add: manyUpdates_def pushed_map charCountOf_example mostRecent_def drop_map)
qed

subsection \<open>Settings changes\<close>

definition allSettled :: "StatsManager \<Rightarrow> bool" where
  "allSettled m = (\<forall>e \<in> ran (dailyStats m). settled e)"

lemma allSettled_call: "allSettled m \<Longrightarrow> allSettled (call parse c m)"
proof (cases c)
  case (UpdateWordCount today now saveOk fname r)
  assume a: "allSettled m"
  have "settled (updatedStats (settings m) now fname r
          (case dailyStats m today of Some e \<Rightarrow> e | None \<Rightarrow> createEmptyStats today))"
    using a
    by (auto simp: settled_def updatedStats_counters allSettled_def ran_def createEmptyStats_def
        split: option.splits)
  then show ?thesis using a UpdateWordCount
    by (auto simp: allSettled_def dailyStats_updateWordCount ran_def split: if_splits)
next
  case (ResetData saveOk)
  then show ?thesis by (simp add: allSettled_def resetData_def Let_def)
next
  case (UpdateSettings newSettings)
  then show ?thesis
    by (auto simp: allSettled_def updateSettings_def ran_def settled_def)
qed

lemma allSettled_calls: "allSettled m \<Longrightarrow> allSettled (calls parse cs m)"
  by (induction cs arbitrary: m) (simp_all add: allSettled_call)

lemma allSettled_new: "allSettled (newStatsManager st)"
  by (simp add: allSettled_def newStatsManager_def)

lemma updateSettings_settled:
  "allSettled m \<Longrightarrow> dailyStats (updateSettings new m) = dailyStats m"
proof
  fix k
  assume a: "allSettled m"
  show "dailyStats (updateSettings new m) k = dailyStats m k"
  proof (cases "dailyStats m k")
    case None
    then show ?thesis by (simp add: updateSettings_def)
  next
    case (Some e)
    then have "settled e" using a by (auto simp: allSettled_def ran_def)
    then show ?thesis using Some by (simp add: updateSettings_def settled_def)
  qed
qed

text \<open>
  C9, as stated, fails: \<open>updateSettings\<close> assigns \<open>goal\<close> and \<open>completed\<close> of
  every stored record, and the record of 2024-01-01 in \<open>loadedManager\<close> comes out
  with another \<open>completed\<close> flag.
\<close>

theorem updateSettings_modifies_record:
  "dailyStats loadedManager ''2024-01-01'' = Some staleRecord \<and>
   dailyStats (updateSettings exampleSettings loadedManager) ''2024-01-01''
     = Some (staleRecord\<lparr>completed := True\<rparr>) \<and>
   staleRecord\<lparr>completed := True\<rparr> \<noteq> staleRecord"
  by (simp add: loadedManager_def updateSettings_def staleRecord_def)

text \<open>
  C9, amended.  \<open>updateSettings\<close> adds and removes no day record; of every stored
  record it leaves the six counters, \<open>total\<close>, \<open>date\<close> and the change list
  unchanged, sets \<open>goal\<close> to 0 and \<open>completed\<close> to \<open>total > 0\<close>; a record
  that already has that goal and that flag is unchanged in all fields, and so is every
  record of a manager that started empty, whatever calls were made on it.
\<close>

theorem updateSettings_frame:
  "dom (dailyStats (updateSettings new m)) = dom (dailyStats m) \<and>
   (dailyStats m k = Some e \<longrightarrow>
      (\<exists>e'. dailyStats (updateSettings new m) k = Some e' \<and>
         chinese e' = chinese e \<and> english e' = english e \<and>
         punctuation e' = punctuation e \<and> numbers e' = numbers e \<and>
         spaces e' = spaces e \<and> words e' = words e \<and> total e' = total e \<and>
         date e' = date e \<and> charChanges e' = charChanges e \<and>
         goal e' = 0 \<and> completed e' = (total e > 0) \<and>
         (settled e \<longrightarrow> e' = e))) \<and>
   dailyStats (updateSettings new (calls parse cs (newStatsManager st)))
     = dailyStats (calls parse cs (newStatsManager st))"
proof -
  have "dailyStats (updateSettings new (calls parse cs (newStatsManager st)))
     = dailyStats (calls parse cs (newStatsManager st))"
    by (rule updateSettings_settled) (rule allSettled_calls, rule allSettled_new)
  moreover have "dom (dailyStats (updateSettings new m)) = dom (dailyStats m)"
    by (auto simp: updateSettings_def dom_def)
  ultimately show ?thesis
    by (auto simp: updateSettings_def settled_def)
qed

theorem updateSettings_frame_witness:
  "dailyStats loadedManager ''2024-01-01'' = Some staleRecord \<and>
   (\<exists>e'. dailyStats (updateSettings exampleSettings loadedManager) ''2024-01-01'' = Some e' \<and>
      english e' = 500 \<and> total e' = 500 \<and> goal e' = 0 \<and> completed e' = True)"
proof -
  have a: "dailyStats loadedManager ''2024-01-01'' = Some staleRecord"
    by (simp add: loadedManager_def)
  from updateSettings_frame
         [of exampleSettings loadedManager "''2024-01-01''" staleRecord isoDate "[]" exampleSettings] a
  obtain e' where "dailyStats (updateSettings exampleSettings loadedManager) ''2024-01-01'' = Some e'"
    and "english e' = english staleRecord" and "total e' = total staleRecord"
    and "goal e' = 0" and "completed e' = (total staleRecord > 0)"
    by blast
  then show ?thesis using a by (simp add: staleRecord_def)
qed

section \<open>Properties of the streak tracker\<close>

lemma diff_examples:
  "getDaysDifference isoDate ''2024-01-01'' ''2024-01-02'' = Some 1"
  "getDaysDifference isoDate ''2024-01-01'' ''2024-01-10'' = Some 9"
  "getDaysDifference isoDate ''2024-01-01'' ''2024-01-01'' = Some 0"
  "getDaysDifference isoDate ''2024-01-01'' ''2023-12-31'' = Some (- 1)"
  by code_simp+

text \<open>
  C3.  \<open>updateStreakData(today)\<close> is the transition function of the specification:
  with an empty \<open>lastDate\<close> the state becomes \<open>(1, 1, today)\<close>; otherwise, with
  \<open>d\<close> the whole-day difference from \<open>lastDate\<close> to \<open>today\<close>: for \<open>d = 1\<close>
  \<open>current\<close> is incremented, \<open>longest\<close> becomes the maximum of \<open>longest\<close> and
  the new \<open>current\<close>, \<open>lastDate\<close> becomes \<open>today\<close>; for \<open>d > 1\<close> \<open>current\<close>
  becomes 1 and \<open>lastDate\<close> \<open>today\<close>, \<open>longest\<close> unchanged; for \<open>d = 0\<close>
  nothing changes.
\<close>

theorem updateStreakData_transition:
  "(lastDate s = [] \<longrightarrow>
      updateStreakData parse s today = \<lparr>current = 1, longest = 1, lastDate = today\<rparr>) \<and>
   (lastDate s \<noteq> [] \<and> getDaysDifference parse (lastDate s) today = Some d \<longrightarrow>
      (d = 1 \<longrightarrow> updateStreakData parse s today =
          \<lparr>current = current s + 1, longest = max (longest s) (current s + 1),
           lastDate = today\<rparr>) \<and>
      (d > 1 \<longrightarrow> updateStreakData parse s today =
          \<lparr>current = 1, longest = longest s, lastDate = today\<rparr>) \<and>
      (d = 0 \<longrightarrow> updateStreakData parse s today = s))"
  by (cases s)
     (auto simp: updateStreakData_def getDaysDifference_def Let_def max_def split: option.splits)

theorem updateStreakData_transition_witness:
  "updateStreakData isoDate \<lparr>current = 0, longest = 0, lastDate = []\<rparr> ''2024-01-01''
     = \<lparr>current = 1, longest = 1, lastDate = ''2024-01-01''\<rparr> \<and>
   getDaysDifference isoDate ''2024-01-01'' ''2024-01-02'' = Some 1 \<and>
   updateStreakData isoDate \<lparr>current = 3, longest = 5, lastDate = ''2024-01-01''\<rparr> ''2024-01-02''
     = \<lparr>current = 4, longest = 5, lastDate = ''2024-01-02''\<rparr> \<and>
   updateStreakData isoDate \<lparr>current = 5, longest = 5, lastDate = ''2024-01-01''\<rparr> ''2024-01-02''
     = \<lparr>current = 6, longest = 6, lastDate = ''2024-01-02''\<rparr> \<and>
   getDaysDifference isoDate ''2024-01-01'' ''2024-01-10'' = Some 9 \<and>
   updateStreakData isoDate \<lparr>current = 3, longest = 5, lastDate = ''2024-01-01''\<rparr> ''2024-01-10''
     = \<lparr>current = 1, longest = 5, lastDate = ''2024-01-10''\<rparr> \<and>
   getDaysDifference isoDate ''2024-01-01'' ''2024-01-01'' = Some 0 \<and>
   updateStreakData isoDate \<lparr>current = 3, longest = 5, lastDate = ''2024-01-01''\<rparr> ''2024-01-01''
     = \<lparr>current = 3, longest = 5, lastDate = ''2024-01-01''\<rparr>"
  using updateStreakData_transition
          [of "\<lparr>current = 0, longest = 0, lastDate = []\<rparr>" isoDate "''2024-01-01''" 0]
        updateStreakData_transition
          [of "\<lparr>current = 3, longest = 5, lastDate = ''2024-01-01''\<rparr>" isoDate "''2024-01-02''" 1]
        updateStreakData_transition
          [of "\<lparr>current = 5, longest = 5, lastDate = ''2024-01-01''\<rparr>" isoDate "''2024-01-02''" 1]
        updateStreakData_transition
          [of "\<lparr>current = 3, longest = 5, lastDate = ''2024-01-01''\<rparr>" isoDate "''2024-01-10''" 9]
        updateStreakData_transition
          [of "\<lparr>current = 3, longest = 5, lastDate = ''2024-01-01''\<rparr>" isoDate "''2024-01-01''" 0]
  by (simp add: diff_examples)

subsection \<open>The invariant\<close>

text \<open>\<open>current \<le> longest\<close> alone is not inductive (the gap case writes
  \<open>current = 1\<close> and keeps \<open>longest\<close>); the states the manager reaches also have
  \<open>longest \<ge> 1\<close> once \<open>lastDate\<close> is set.\<close>

definition streakInv :: "StreakData \<Rightarrow> bool" where
  "streakInv s = (current s \<le> longest s \<and> (lastDate s = [] \<or> 1 \<le> longest s))"

lemma streakInv_initial: "streakInv initialStreak"
  by (simp add: streakInv_def initialStreak_def)

lemma streakInv_updateStreakData: "streakInv s \<Longrightarrow> streakInv (updateStreakData parse s today)"
  by (auto simp: streakInv_def updateStreakData_def Let_def split: option.splits)

lemma streakInv_call: "streakInv (streakData m) \<Longrightarrow> streakInv (streakData (call parse c m))"
  by (cases c)
     (auto simp: updateWordCount_def resetData_def updateSettings_def Let_def
        streakInv_initial streakInv_updateStreakData)

lemma streakInv_calls: "streakInv (streakData m) \<Longrightarrow> streakInv (streakData (calls parse cs m))"
  by (induction cs arbitrary: m) (simp_all add: streakInv_call)

text \<open>
  C4.  \<open>current \<le> longest\<close> holds in the initial state, which is also the state of
  a new manager and the state \<open>resetData\<close> leaves, and in every state that a new
  manager reaches by any sequence of calls: each \<open>updateWordCount\<close> (which advances
  the streak in whichever of its cases applies), \<open>resetData\<close> and
  \<open>updateSettings\<close> preserves it.  A single \<open>updateStreakData\<close> step preserves
  it from every state in which \<open>longest\<close> is at least 1 once \<open>lastDate\<close> is set,
  as it is in every state the manager reaches.
\<close>

theorem streak_current_le_longest:
  "current initialStreak \<le> longest initialStreak \<and>
   streakData (newStatsManager st) = initialStreak \<and>
   streakData (snd (resetData saveOk m)) = initialStreak \<and>
   current (streakData (calls parse cs (newStatsManager st)))
     \<le> longest (streakData (calls parse cs (newStatsManager st))) \<and>
   (lastDate (streakData (calls parse cs (newStatsManager st))) = [] \<or>
    1 \<le> longest (streakData (calls parse cs (newStatsManager st)))) \<and>
   (current s \<le> longest s \<and> (lastDate s = [] \<or> 1 \<le> longest s) \<longrightarrow>
      current (updateStreakData parse s today) \<le> longest (updateStreakData parse s today) \<and>
      (lastDate (updateStreakData parse s today) = [] \<or>
       1 \<le> longest (updateStreakData parse s today)))"
proof -
  have "streakInv (streakData (calls parse cs (newStatsManager st)))"
    by (rule streakInv_calls) (simp add: newStatsManager_def streakInv_initial)
  moreover have "streakInv s \<longrightarrow> streakInv (updateStreakData parse s today)"
    by (simp add: streakInv_updateStreakData)
  ultimately show ?thesis
    by (simp add: streakInv_def initialStreak_def newStatsManager_def resetData_def Let_def)
qed

theorem streak_current_le_longest_witness:
  "current \<lparr>current = 3, longest = 5, lastDate = ''2024-01-01''\<rparr>
     \<le> longest \<lparr>current = 3, longest = 5, lastDate = ''2024-01-01''\<rparr> \<and>
   (1::int) \<le> longest \<lparr>current = 3, longest = 5, lastDate = ''2024-01-01''\<rparr> \<and>
   updateStreakData isoDate \<lparr>current = 3, longest = 5, lastDate = ''2024-01-01''\<rparr> ''2024-01-10''
     = \<lparr>current = 1, longest = 5, lastDate = ''2024-01-10''\<rparr> \<and>
   current (updateStreakData isoDate \<lparr>current = 3, longest = 5, lastDate = ''2024-01-01''\<rparr>
              ''2024-01-10'')
     \<le> longest (updateStreakData isoDate \<lparr>current = 3, longest = 5, lastDate = ''2024-01-01''\<rparr>
              ''2024-01-10'')"
proof -
  have u: "updateStreakData isoDate \<lparr>current = 3, longest = 5, lastDate = ''2024-01-01''\<rparr>
             ''2024-01-10'' = \<lparr>current = 1, longest = 5, lastDate = ''2024-01-10''\<rparr>"
    by code_simp
  from streak_current_le_longest
         [of exampleSettings True loadedManager isoDate "[]"
             "\<lparr>current = 3, longest = 5, lastDate = ''2024-01-01''\<rparr>" "''2024-01-10''"]
  have "current (updateStreakData isoDate \<lparr>current = 3, longest = 5, lastDate = ''2024-01-01''\<rparr>
              ''2024-01-10'')
     \<le> longest (updateStreakData isoDate \<lparr>current = 3, longest = 5, lastDate = ''2024-01-01''\<rparr>
              ''2024-01-10'')"
    by simp
  then show ?thesis using u by simp
qed

text \<open>
  C10.  When \<open>lastDate\<close> is set and \<open>today\<close> lies a negative number of whole days
  after it, \<open>updateStreakData\<close> returns the state as it was, in the manager and in
  the single-file plugin alike, and the \<open>updateWordCount\<close> that made the call still
  resolves.
\<close>

theorem updateStreakData_backwards:
  "lastDate s \<noteq> [] \<and> getDaysDifference parse (lastDate s) today = Some d \<and> d < 0 \<longrightarrow>
     updateStreakData parse s today = s \<and> plugin_updateStreakData parse s today = s \<and>
     streakData (snd (updateWordCount parse today now True fname r (m\<lparr>streakData := s\<rparr>))) = s \<and>
     fst (updateWordCount parse today now True fname r (m\<lparr>streakData := s\<rparr>)) = Resolved"
  by (auto simp: updateStreakData_def plugin_updateStreakData_def getDaysDifference_def Let_def
      updateWordCount_def split: option.splits)

theorem updateStreakData_backwards_witness:
  "getDaysDifference isoDate ''2024-01-01'' ''2023-12-31'' = Some (- 1) \<and>
   updateStreakData isoDate \<lparr>current = 3, longest = 5, lastDate = ''2024-01-01''\<rparr> ''2023-12-31''
     = \<lparr>current = 3, longest = 5, lastDate = ''2024-01-01''\<rparr> \<and>
   plugin_updateStreakData isoDate \<lparr>current = 3, longest = 5, lastDate = ''2024-01-01''\<rparr>
       ''2023-12-31''
     = \<lparr>current = 3, longest = 5, lastDate = ''2024-01-01''\<rparr>"
  using updateStreakData_backwards
          [of "\<lparr>current = 3, longest = 5, lastDate = ''2024-01-01''\<rparr>" isoDate "''2023-12-31''" "- 1"]
  by (simp add: diff_examples)

section \<open>Properties of loading\<close>













text \<open>The cut-off is the load time moved back 30 days of 24 hours in local time; where
  the offset of local time is the same at both ends, it is 30 times 24 hours before the
  load.\<close>

lemma thirtyDaysAgo_local:
  "thirtyDaysAgo tz today = TimeClip (UTC tz (LocalTime tz today - 30 * msPerDay))"
proof -
  have "(Day t - 30) * msPerDay + TimeWithinDay t = t - 30 * msPerDay" for t
    by (simp add: Day_def TimeWithinDay_def algebra_simps)
  then show ?thesis by (simp add: thirtyDaysAgo_def Let_def)
qed

lemma thirtyDaysAgo_constant:
  assumes "\<forall>t b. tz t b = off" and "\<bar>today - 30 * msPerDay\<bar> \<le> 8640000000000000"
  shows "thirtyDaysAgo tz today = Some (today - 30 * msPerDay)"
  using assms by (simp add: thirtyDaysAgo_local UTC_def LocalTime_def TimeClip_def)

lemma iso_examples:
  "isoDate ''2024-01-01'' = Some 1704067200000"
  "isoDate ''2023-12-02'' = Some 1701475200000"
  "isoDate ''2024-10-21'' = Some 1729468800000"
  "isoDate ''2024-10-20'' = Some 1729382400000"
  by code_simp+

lemma cutoff_examples:
  "thirtyDaysAgo utcZone loadTime = Some 1701604800000"
  "loadTime - 30 * msPerDay = 1701604800000"
  "thirtyDaysAgo newYork nyLoadTime = Some 1729467000000"
  "nyLoadTime - 30 * msPerDay - 3600000 = 1729467000000"
  by (simp_all add: thirtyDaysAgo_local UTC_def LocalTime_def TimeClip_def utcZone_def newYork_def
        loadTime_def nyLoadTime_def msPerDay_def)


text \<open>The record of \<open>loadedManager\<close> is what \<open>loadData\<close> makes of a day that the
  single-file plugin stored.\<close>

lemma staleRecord_loaded:
  "loadData isoDate utcZone loadTime (StoredArray [Obj pluginItem]) =
     (Resolved, Some [JStr ''2024-01-01'' \<mapsto> validated pluginItem]) \<and>
   asDailyStats (validated pluginItem) = Some staleRecord"
  by (simp add: loadData_def inWindow_def cutoff_examples(1,3)[unfolded loadTime_def nyLoadTime_def] msPerDay_def loadTime_def
        validated_def pluginItem_def js_or_def iso_examples asDailyStats_def staleRecord_def
        del: isoDate.simps)






section \<open>Properties of the character classifier\<close>

lemma countLoop_step:
  "i < length t \<Longrightarrow> countBody st t i acc = (i', acc') \<Longrightarrow>
   countLoop st t i acc = countLoop st t (i' + 1) acc'"
  by (subst countLoop.simps) simp

lemma countLoop_done: "\<not> i < length t \<Longrightarrow> countLoop st t i acc = acc"
  by (subst countLoop.simps) simp

lemma wordEnd_le_length: "j \<le> length t \<Longrightarrow> wordEnd t j \<le> length t"
proof (induction t j rule: wordEnd.induct)
  case (1 t j)
  show ?case
  proof (cases "j < length t \<and> ENGLISH (t ! j)")
    case True
    then have "wordEnd t (j + 1) \<le> length t" using "1.IH" by simp
    moreover have "wordEnd t j = wordEnd t (j + 1)" using True by (simp add: wordEnd.simps[of t j])
    ultimately show ?thesis by simp
  next
    case False
    then have "wordEnd t j = j" by (auto simp: wordEnd.simps[of t j])
    then show ?thesis using "1.prems" by simp
  qed
qed

lemma wordEnd_le: "j \<le> k \<Longrightarrow> k < length t \<Longrightarrow> \<not> ENGLISH (t ! k) \<Longrightarrow> wordEnd t j \<le> k"
proof (induction t j rule: wordEnd.induct)
  case (1 t j)
  show ?case
  proof (cases "j < length t \<and> ENGLISH (t ! j)")
    case True
    then have "j \<noteq> k" using "1.prems" by auto
    then have "j + 1 \<le> k" using "1.prems" by simp
    then have "wordEnd t (j + 1) \<le> k" using "1.IH" True "1.prems" by simp
    moreover have "wordEnd t j = wordEnd t (j + 1)" using True by (simp add: wordEnd.simps[of t j])
    ultimately show ?thesis by simp
  next
    case False
    then have "wordEnd t j = j" by (auto simp: wordEnd.simps[of t j])
    then show ?thesis using "1.prems" by simp
  qed
qed

text \<open>The inner loop inside a larger text: it stops where it stops in the part
  \<open>b\<close> alone, when \<open>b\<close> ends at a non-letter or is followed by none.\<close>

lemma wordEnd_context:
  "i \<le> length b \<Longrightarrow> wordEnd b i < length b \<or> c = [] \<or> \<not> ENGLISH (hd c) \<Longrightarrow>
   wordEnd (a @ b @ c) (length a + i) = length a + wordEnd b i"
proof (induction b i rule: wordEnd.induct)
  case (1 b i)
  show ?case
  proof (cases "i < length b")
    case True
    note lt = True
    show ?thesis
    proof (cases "ENGLISH (b ! i)")
      case True
      have e: "wordEnd b i = wordEnd b (i + 1)"
        using lt True by (simp add: wordEnd.simps[of b i])
      have "wordEnd (a @ b @ c) (length a + (i + 1)) = length a + wordEnd b (i + 1)"
        using "1.IH" lt True "1.prems" e by simp
      moreover have "wordEnd (a @ b @ c) (length a + i) = wordEnd (a @ b @ c) (length a + (i + 1))"
        using lt True by (simp add: wordEnd.simps[of "a @ b @ c" "length a + i"] nth_append)
      ultimately show ?thesis using e by simp
    next
      case False
      then show ?thesis using lt
        by (simp add: wordEnd.simps[of "a @ b @ c" "length a + i"] wordEnd.simps[of b i] nth_append)
    qed
  next
    case False
    then have i: "i = length b" using "1.prems" by simp
    have wb: "wordEnd b i = length b" using i by (simp add: wordEnd.simps[of b "length b"])
    then have c: "c = [] \<or> \<not> ENGLISH (hd c)" using "1.prems" by simp
    have "wordEnd (a @ b @ c) (length a + length b) = length a + length b"
      using c by (subst wordEnd.simps, cases c) (simp_all add: nth_append)
    then show ?thesis using i wb by simp
  qed
qed

lemma wordEnd_inside:
  assumes "i < length b" and "boundary b c"
  shows "wordEnd b i < length b \<or> c = [] \<or> \<not> ENGLISH (hd c)"
proof (cases "c = [] \<or> \<not> ENGLISH (hd c)")
  case True
  then show ?thesis by simp
next
  case False
  then have l: "b \<noteq> [] \<and> \<not> ENGLISH (last b)" using assms by (auto simp: boundary_def)
  then have "\<not> ENGLISH (b ! (length b - 1))" by (auto simp: last_conv_nth)
  then have "wordEnd b i \<le> length b - 1"
    using assms(1) l by (intro wordEnd_le) auto
  then show ?thesis using assms(1) by linarith
qed

lemma substring_context:
  "j \<le> length b \<Longrightarrow> substring (a @ b @ c) (length a + i) (length a + j) = substring b i j"
  by (simp add: substring_def)

text \<open>One pass of the loop body inside a larger text \<open>a @ b @ c\<close>, at an index of
  \<open>b\<close>: what it does in \<open>b\<close> alone, when the ends of \<open>b\<close> do not cut a run of
  letters.\<close>

lemma countBody_context:
  assumes "i < length b" and "boundary b c"
    and "i = 0 \<longrightarrow> a = [] \<or> \<not> ENGLISH (last a) \<or> \<not> ENGLISH (hd b)"
    and "countBody st b i acc = (i', acc')"
  shows "countBody st (a @ b @ c) (length a + i) acc = (length a + i', acc') \<and> i' < length b"
proof -
  define G where "G = (\<lambda>char start (j::nat) (k::nat).
      if trackNumbers st \<and> (NUMBERS char \<or> FULL_WIDTH_NUMBERS char) then
        (k, acc\<lparr>numbers := numbers acc + 1\<rparr>)
      else if trackEnglish st \<and> ENGLISH char then
        (if start then
           (let word = substring b i (wordEnd b i);
                acc1 =
                  (if \<not> ROMAN_NUMERALS word \<and> length word > 1 then
                     (let a = acc\<lparr>english := english acc + int (length word)\<rparr>
                      in if showWordCount st then a\<lparr>words := words a + 1\<rparr> else a)
                   else if length word = 1 \<and> ENGLISH (word ! 0) then
                     acc\<lparr>english := english acc + 1\<rparr>
                   else acc)
            in (j - 1, acc1))
         else (k, acc))
      else if trackChinese st \<and> CHINESE char then
        (k, acc\<lparr>chinese := chinese acc + 1\<rparr>)
      else if trackPunctuation st \<and> (PUNCTUATION char \<or> FULL_WIDTH_PUNCTUATION char) then
        (k, acc\<lparr>punctuation := punctuation acc + 1\<rparr>)
      else if trackSpaces st \<and> (char = 32 \<or> char = 9 \<or> char = 10 \<or> char = 13) then
        (k, acc\<lparr>spaces := spaces acc + 1\<rparr>)
      else (k, acc))"
  have ch: "(a @ b @ c) ! (length a + i) = b ! i" using assms(1) by (simp add: nth_append)
  have we: "wordEnd (a @ b @ c) (length a + i) = length a + wordEnd b i"
    using assms(1) wordEnd_inside[OF assms(1,2)] by (intro wordEnd_context) simp_all
  have wl: "wordEnd b i \<le> length b" using assms(1) by (intro wordEnd_le_length) simp
  have sub: "substring (a @ b @ c) (length a + i) (length a + wordEnd b i) = substring b i (wordEnd b i)"
    using wl by (rule substring_context)
  have inner: "countBody st b i acc = G (b ! i) (i = 0 \<or> \<not> ENGLISH (b ! (i - 1))) (wordEnd b i) i"
    unfolding countBody_def G_def Let_def ..
  have outer: "countBody st (a @ b @ c) (length a + i) acc =
      G (b ! i) (length a + i = 0 \<or> \<not> ENGLISH ((a @ b @ c) ! (length a + i - 1)))
        (length a + wordEnd b i) (length a + i)"
    unfolding countBody_def G_def Let_def ch we sub ..
  have start: "ENGLISH (b ! i) \<longrightarrow>
      (length a + i = 0 \<or> \<not> ENGLISH ((a @ b @ c) ! (length a + i - 1))) =
      (i = 0 \<or> \<not> ENGLISH (b ! (i - 1)))"
  proof (cases "i = 0")
    case True
    have "b \<noteq> []" using assms(1) by auto
    then have "hd b = b ! 0" by (simp add: hd_conv_nth)
    then have "ENGLISH (b ! i) \<longrightarrow> a = [] \<or> \<not> ENGLISH (last a)" using assms(3) True by auto
    then show ?thesis using True by (cases "a = []") (auto simp: nth_append last_conv_nth)
  next
    case False
    then have "length a + i - 1 = length a + (i - 1)" by simp
    then have "(a @ b @ c) ! (length a + i - 1) = b ! (i - 1)"
      using assms(1) by (simp only: nth_append_length_plus) (auto simp: nth_append)
    then show ?thesis using False by simp
  qed
  have gt: "ENGLISH (b ! i) \<longrightarrow> 0 < wordEnd b i" using wordEnd_gt[of i b] assms(1) by auto
  have shift: "\<And>ch s s' j k. ENGLISH ch \<longrightarrow> s = s' \<and> 0 < j \<Longrightarrow>
      G ch s (length a + j) (length a + k) = (length a + fst (G ch s' j k), snd (G ch s' j k))"
  proof -
    fix ch :: nat and s s' :: bool and j k :: nat
    assume h: "ENGLISH ch \<longrightarrow> s = s' \<and> 0 < j"
    show "G ch s (length a + j) (length a + k) = (length a + fst (G ch s' j k), snd (G ch s' j k))"
    proof (cases "trackNumbers st \<and> (NUMBERS ch \<or> FULL_WIDTH_NUMBERS ch)")
      case True
      then have d: "(trackNumbers st \<and> (NUMBERS ch \<or> FULL_WIDTH_NUMBERS ch)) = True" by simp
      show ?thesis unfolding G_def d by simp
    next
      case False
      then have nd: "(trackNumbers st \<and> (NUMBERS ch \<or> FULL_WIDTH_NUMBERS ch)) = False" by simp
      show ?thesis
      proof (cases "trackEnglish st \<and> ENGLISH ch")
        case True
        then have e: "(trackEnglish st \<and> ENGLISH ch) = True" by simp
        have "s = s'" and "0 < j" using h True by simp_all
        then show ?thesis unfolding G_def nd e by (cases s') (simp_all add: Let_def)
      next
        case False
        then have e: "(trackEnglish st \<and> ENGLISH ch) = False" by simp
        show ?thesis unfolding G_def nd e by simp
      qed
    qed
  qed
  have bound: "\<And>ch s. fst (G ch s (wordEnd b i) i) < length b"
  proof -
    fix ch :: nat and s :: bool
    have "0 < length b" using assms(1) by auto
    then have "wordEnd b i - 1 < length b" using wl by linarith
    then show "fst (G ch s (wordEnd b i) i) < length b"
      using assms(1) by (simp add: G_def Let_def)
  qed
  have "countBody st (a @ b @ c) (length a + i) acc =
      (length a + fst (countBody st b i acc), snd (countBody st b i acc))"
    unfolding outer inner using start gt by (intro shift) blast
  then show ?thesis using assms(4) bound[of "b ! i" "i = 0 \<or> \<not> ENGLISH (b ! (i - 1))"] inner by simp
qed

lemma countLoop_context:
  "i \<le> length b \<Longrightarrow> boundary b c \<Longrightarrow>
   (i = 0 \<longrightarrow> a = [] \<or> \<not> ENGLISH (last a) \<or> b = [] \<or> \<not> ENGLISH (hd b)) \<Longrightarrow>
   countLoop st (a @ b @ c) (length a + i) acc =
   countLoop st (a @ b @ c) (length a + length b) (countLoop st b i acc)"
proof (induction st b i acc rule: countLoop.induct)
  case (1 st b i acc)
  show ?case
  proof (cases "i < length b")
    case True
    obtain i' acc' where body: "countBody st b i acc = (i', acc')" by (cases "countBody st b i acc")
    have start: "i = 0 \<longrightarrow> a = [] \<or> \<not> ENGLISH (last a) \<or> \<not> ENGLISH (hd b)"
      using "1.prems"(3) True by auto
    have ctx: "countBody st (a @ b @ c) (length a + i) acc = (length a + i', acc') \<and> i' < length b"
      using True "1.prems"(2) start body by (rule countBody_context)
    have "countLoop st (a @ b @ c) (length a + i) acc =
          countLoop st (a @ b @ c) (length a + i' + 1) acc'"
      using True ctx by (intro countLoop_step) simp_all
    also have "\<dots> = countLoop st (a @ b @ c) (length a + (i' + 1)) acc'" by simp
    also have "\<dots> = countLoop st (a @ b @ c) (length a + length b) (countLoop st b (i' + 1) acc')"
      using "1.IH"[OF True body[symmetric]] ctx "1.prems"(2) by simp
    also have "countLoop st b (i' + 1) acc' = countLoop st b i acc"
      using True body by (simp add: countLoop_step)
    finally show ?thesis .
  next
    case False
    then have "i = length b" using "1.prems" by simp
    then show ?thesis by (simp add: countLoop_done)
  qed
qed

lemma addCounts_zero [simp]: "addCounts a zeroCounts = a" "addCounts zeroCounts a = a"
  by (simp_all add: addCounts_def zeroCounts_def)

lemma addCounts_assoc: "addCounts (addCounts a b) c = addCounts a (addCounts b c)"
  by (simp add: addCounts_def)

lemma countBody_add:
  "countBody st t i acc =
     (fst (countBody st t i zeroCounts), addCounts acc (snd (countBody st t i zeroCounts)))"
proof -
  let ?num = "trackNumbers st \<and> (NUMBERS (t ! i) \<or> FULL_WIDTH_NUMBERS (t ! i))"
  let ?eng = "trackEnglish st \<and> ENGLISH (t ! i)"
  consider (num) "?num" | (eng) "\<not> ?num" "?eng" | (other) "\<not> ?num" "\<not> ?eng" by blast
  then show ?thesis
  proof cases
    case num
    then have c: "?num = True" by simp
    show ?thesis unfolding countBody_def Let_def c
      by (simp add: addCounts_def zeroCounts_def)
  next
    case eng
    then have c: "?num = False" "?eng = True" by simp_all
    show ?thesis unfolding countBody_def Let_def c
      by (simp add: addCounts_def zeroCounts_def)
  next
    case other
    then have c: "?num = False" "?eng = False" by simp_all
    show ?thesis unfolding countBody_def Let_def c
      by (simp add: addCounts_def zeroCounts_def)
  qed
qed

text \<open>The counters only accumulate: the loop from any counters adds what it counts
  from zero.\<close>

lemma countLoop_add:
  "countLoop st t i acc = addCounts acc (countLoop st t i zeroCounts)"
proof (induction "length t - i" arbitrary: i acc rule: less_induct)
  case less
  show ?case
  proof (cases "i < length t")
    case True
    obtain i' d where z: "countBody st t i zeroCounts = (i', d)"
      by (cases "countBody st t i zeroCounts")
    then have b: "countBody st t i acc = (i', addCounts acc d)"
      using countBody_add[of st t i acc] by simp
    have adv: "i \<le> i'" using True z by (rule countBody_advances)
    then have m: "length t - (i' + 1) < length t - i" using True by simp
    have "countLoop st t i acc = countLoop st t (i' + 1) (addCounts acc d)"
      using True b by (rule countLoop_step)
    also have "\<dots> = addCounts (addCounts acc d) (countLoop st t (i' + 1) zeroCounts)"
      using less[OF m] .
    also have "\<dots> = addCounts acc (addCounts d (countLoop st t (i' + 1) zeroCounts))"
      by (rule addCounts_assoc)
    also have "addCounts d (countLoop st t (i' + 1) zeroCounts) = countLoop st t (i' + 1) d"
      using less[OF m, of d] by simp
    also have "countLoop st t (i' + 1) d = countLoop st t i zeroCounts"
      using True z by (simp add: countLoop_step)
    finally show ?thesis .
  next
    case False
    then show ?thesis by (simp add: countLoop_done)
  qed
qed

text \<open>A text cut at the two ends of a maximal run of letters: the counters of the
  whole are the sums of the counters of the three parts.\<close>

lemma countCharacters_run:
  assumes "maximalRun pre w post"
  shows "countCharacters st (pre @ w @ post) =
     addCounts (addCounts (countCharacters st pre) (countCharacters st w)) (countCharacters st post)"
proof -
  let ?t = "pre @ w @ post"
  have w: "w \<noteq> []" and e: "ENGLISH (hd w)"
    and p: "pre = [] \<or> \<not> ENGLISH (last pre)" and q: "post = [] \<or> \<not> ENGLISH (hd post)"
    using assms by (auto simp: maximalRun_def list_all_iff)
  have 1: "countLoop st ([] @ pre @ (w @ post)) (length ([]::nat list) + 0) zeroCounts =
      countLoop st ([] @ pre @ (w @ post)) (length ([]::nat list) + length pre) (countLoop st pre 0 zeroCounts)"
    using p by (intro countLoop_context) (auto simp: boundary_def)
  have 2: "countLoop st (pre @ w @ post) (length pre + 0) (countLoop st pre 0 zeroCounts) =
      countLoop st (pre @ w @ post) (length pre + length w) (countLoop st w 0 (countLoop st pre 0 zeroCounts))"
    using p q by (intro countLoop_context) (auto simp: boundary_def)
  have 3: "countLoop st ((pre @ w) @ post @ []) (length (pre @ w) + 0) (countLoop st w 0 (countLoop st pre 0 zeroCounts)) =
      countLoop st ((pre @ w) @ post @ []) (length (pre @ w) + length post)
        (countLoop st post 0 (countLoop st w 0 (countLoop st pre 0 zeroCounts)))"
    using q by (intro countLoop_context) (auto simp: boundary_def)
  have "countLoop st ?t 0 zeroCounts =
      countLoop st post 0 (countLoop st w 0 (countLoop st pre 0 zeroCounts))"
    using 1 2 3 by (simp add: countLoop_done)
  also have "\<dots> = addCounts (countLoop st w 0 (countLoop st pre 0 zeroCounts)) (countLoop st post 0 zeroCounts)"
    by (rule countLoop_add)
  also have "countLoop st w 0 (countLoop st pre 0 zeroCounts) =
      addCounts (countLoop st pre 0 zeroCounts) (countLoop st w 0 zeroCounts)"
    by (rule countLoop_add)
  finally show ?thesis by (simp add: countCharacters_def)
qed

lemma wordEnd_all:
  "\<forall>k. j \<le> k \<and> k < length t \<longrightarrow> ENGLISH (t ! k) \<Longrightarrow> j \<le> length t \<Longrightarrow> wordEnd t j = length t"
proof (induction t j rule: wordEnd.induct)
  case (1 t j)
  show ?case
  proof (cases "j < length t")
    case True
    then have e: "ENGLISH (t ! j)" using "1.prems" by simp
    have "wordEnd t (j + 1) = length t"
      using "1.IH" True e "1.prems" by simp
    then show ?thesis using True e by (simp add: wordEnd.simps[of t j])
  next
    case False
    then have "j = length t" using "1.prems" by simp
    then show ?thesis by (simp add: wordEnd.simps[of t "length t"])
  qed
qed

lemma ROMAN_ENGLISH: "c \<in> set (utf16 ''IVXLCDMivxlcdm'') \<Longrightarrow> ENGLISH c"
  by (auto simp: utf16_def ENGLISH_def inRange_def)

lemma ROMAN_not_digit: "c \<in> set (utf16 ''IVXLCDMivxlcdm'') \<Longrightarrow> \<not> NUMBERS c \<and> \<not> FULL_WIDTH_NUMBERS c"
  by (auto simp: utf16_def NUMBERS_def FULL_WIDTH_NUMBERS_def inRange_def)

lemma ENGLISH_not_digit: "ENGLISH c \<Longrightarrow> \<not> NUMBERS c \<and> \<not> FULL_WIDTH_NUMBERS c"
  by (auto simp: ENGLISH_def NUMBERS_def FULL_WIDTH_NUMBERS_def inRange_def)

lemma roman_uncounted:
  assumes "trackEnglish st" and "ROMAN_NUMERALS w" and "length w > 1"
  shows "countCharacters st w = zeroCounts"
proof -
  have all: "\<forall>k. k < length w \<longrightarrow> w ! k \<in> set (utf16 ''IVXLCDMivxlcdm'')"
    using assms(2) by (simp add: ROMAN_NUMERALS_def list_all_length)
  then have eng: "\<forall>k. 0 \<le> k \<and> k < length w \<longrightarrow> ENGLISH (w ! k)"
    using ROMAN_ENGLISH by blast
  have we: "wordEnd w 0 = length w" using wordEnd_all[OF eng] by simp
  have "0 < length w" using assms(3) by auto
  then have w0: "w ! 0 \<in> set (utf16 ''IVXLCDMivxlcdm'')" using all by blast
  have body: "countBody st w 0 zeroCounts = (length w - 1, zeroCounts)"
    using assms ROMAN_ENGLISH[OF w0] ROMAN_not_digit[OF w0]
    by (simp add: countBody_def Let_def we substring_def)
  have "countLoop st w 0 zeroCounts = countLoop st w (length w - 1 + 1) zeroCounts"
    using assms(3) body by (intro countLoop_step) auto
  also have "\<dots> = zeroCounts" using assms(3) by (simp add: countLoop_done)
  finally show ?thesis by (simp add: countCharacters_def)
qed

lemma single_letter:
  assumes "trackEnglish st" and "ENGLISH c"
  shows "countCharacters st [c] = zeroCounts\<lparr>english := 1\<rparr>"
proof -
  have we: "wordEnd [c] 0 = 1" using wordEnd_all[of 0 "[c]"] assms(2) by simp
  have body: "countBody st [c] 0 zeroCounts = (0, zeroCounts\<lparr>english := 1\<rparr>)"
    using assms ENGLISH_not_digit[OF assms(2)]
    by (simp add: countBody_def Let_def we substring_def ROMAN_NUMERALS_def zeroCounts_def)
  have "countLoop st [c] 0 zeroCounts = countLoop st [c] (0 + 1) (zeroCounts\<lparr>english := 1\<rparr>)"
    using body by (intro countLoop_step) simp_all
  also have "\<dots> = zeroCounts\<lparr>english := 1\<rparr>" by (simp add: countLoop_done)
  finally show ?thesis by (simp add: countCharacters_def)
qed

lemma word_counted:
  assumes "trackEnglish st" and "\<forall>k. k < length w \<longrightarrow> ENGLISH (w ! k)"
    and "\<not> ROMAN_NUMERALS w" and "length w > 1"
  shows "countCharacters st w =
     zeroCounts\<lparr>english := int (length w), words := (if showWordCount st then 1 else 0)\<rparr>"
proof -
  have we: "wordEnd w 0 = length w" using wordEnd_all[of 0 w] assms(2) by simp
  have "0 < length w" using assms(4) by auto
  then have w0: "ENGLISH (w ! 0)" using assms(2) by blast
  have body: "countBody st w 0 zeroCounts =
     (length w - 1, zeroCounts\<lparr>english := int (length w), words := (if showWordCount st then 1 else 0)\<rparr>)"
    using assms w0 ENGLISH_not_digit[OF w0]
    by (simp add: countBody_def Let_def we substring_def zeroCounts_def)
  have "countLoop st w 0 zeroCounts = countLoop st w (length w - 1 + 1)
      (zeroCounts\<lparr>english := int (length w), words := (if showWordCount st then 1 else 0)\<rparr>)"
    using assms(4) body by (intro countLoop_step) auto
  also have "\<dots> = zeroCounts\<lparr>english := int (length w), words := (if showWordCount st then 1 else 0)\<rparr>"
    using assms(4) by (simp add: countLoop_done)
  finally show ?thesis by (simp add: countCharacters_def)
qed

lemma countCharacters_Nil: "countCharacters st [] = zeroCounts"
  by (simp add: countCharacters_def countLoop_done)

lemma maximalRun_alone: "w \<noteq> [] \<Longrightarrow> list_all ENGLISH w \<Longrightarrow> maximalRun [] w []"
  by (simp add: maximalRun_def)

lemma maximalRun_letters:
  "maximalRun pre w post \<Longrightarrow> (\<forall>k. k < length w \<longrightarrow> ENGLISH (w ! k)) \<and> w \<noteq> []"
  by (simp add: maximalRun_def list_all_length)

text \<open>
  C2.  With alphabetic tracking and word counting enabled, whatever the other
  toggles: \<open>III\<close> gives \<open>english = 0\<close> and \<open>words = 0\<close>, \<open>abc\<close> gives
  \<open>english = 3\<close> and \<open>words = 1\<close>, \<open>a\<close> gives \<open>english = 1\<close> and
  \<open>words = 0\<close>.  In general, for a maximal run \<open>w\<close> of letters anywhere in a
  text, between a part \<open>pre\<close> that is empty or ends with a non-letter and a part
  \<open>post\<close> that is empty or begins with one, the counters of the text are those of
  \<open>pre\<close> plus those of \<open>post\<close> plus the contribution of the run: nothing in any
  category when the run is longer than one and made of the letters I V X L C D M in
  either case; one alphabetic character and no word when it is a single letter; its
  length in alphabetic characters and one word otherwise.  In particular a text that
  is one such Roman run is counted in no category, and a one-letter text is one
  alphabetic character and no word.
\<close>

theorem countCharacters_roman_and_words:
  "trackEnglish st \<and> showWordCount st \<longrightarrow>
     english (countCharacters st (utf16 ''III'')) = 0 \<and>
     words (countCharacters st (utf16 ''III'')) = 0 \<and>
     english (countCharacters st (utf16 ''abc'')) = 3 \<and>
     words (countCharacters st (utf16 ''abc'')) = 1 \<and>
     english (countCharacters st (utf16 ''a'')) = 1 \<and>
     words (countCharacters st (utf16 ''a'')) = 0 \<and>
     (maximalRun pre w post \<longrightarrow>
        (ROMAN_NUMERALS w \<and> length w > 1 \<longrightarrow>
           countCharacters st (pre @ w @ post) =
             addCounts (countCharacters st pre) (countCharacters st post)) \<and>
        (length w = 1 \<longrightarrow>
           countCharacters st (pre @ w @ post) =
             addCounts (addCounts (countCharacters st pre) (zeroCounts\<lparr>english := 1\<rparr>))
               (countCharacters st post)) \<and>
        (\<not> ROMAN_NUMERALS w \<and> length w > 1 \<longrightarrow>
           countCharacters st (pre @ w @ post) =
             addCounts
               (addCounts (countCharacters st pre)
                  (zeroCounts\<lparr>english := int (length w), words := 1\<rparr>))
               (countCharacters st post))) \<and>
     (ROMAN_NUMERALS r \<and> length r > 1 \<longrightarrow> countCharacters st r = zeroCounts) \<and>
     (ENGLISH c \<longrightarrow> countCharacters st [c] = zeroCounts\<lparr>english := 1\<rparr>)"
proof
  assume a: "trackEnglish st \<and> showWordCount st"
  have r: "ROMAN_NUMERALS (utf16 ''III'')" by (simp add: ROMAN_NUMERALS_def utf16_def)
  have 1: "countCharacters st (utf16 ''III'') = zeroCounts"
    using a r by (intro roman_uncounted) (simp_all add: utf16_def)
  have 2: "countCharacters st (utf16 ''abc'') =
     zeroCounts\<lparr>english := int (length (utf16 ''abc'')), words := (if showWordCount st then 1 else 0)\<rparr>"
    using a by (intro word_counted) (simp_all add: utf16_def ROMAN_NUMERALS_def ENGLISH_def inRange_def nth_Cons split: nat.splits)
  have 3: "countCharacters st (utf16 ''a'') = zeroCounts\<lparr>english := 1\<rparr>"
    using a single_letter[of st 97] by (simp add: utf16_def ENGLISH_def inRange_def)
  have run: "maximalRun pre w post \<longrightarrow>
        (ROMAN_NUMERALS w \<and> length w > 1 \<longrightarrow>
           countCharacters st (pre @ w @ post) =
             addCounts (countCharacters st pre) (countCharacters st post)) \<and>
        (length w = 1 \<longrightarrow>
           countCharacters st (pre @ w @ post) =
             addCounts (addCounts (countCharacters st pre) (zeroCounts\<lparr>english := 1\<rparr>))
               (countCharacters st post)) \<and>
        (\<not> ROMAN_NUMERALS w \<and> length w > 1 \<longrightarrow>
           countCharacters st (pre @ w @ post) =
             addCounts
               (addCounts (countCharacters st pre)
                  (zeroCounts\<lparr>english := int (length w), words := 1\<rparr>))
               (countCharacters st post))"
  proof
    assume m: "maximalRun pre w post"
    note dec = countCharacters_run[OF m, of st]
    have l: "\<forall>k. k < length w \<longrightarrow> ENGLISH (w ! k)" using maximalRun_letters[OF m] by simp
    have A: "ROMAN_NUMERALS w \<and> length w > 1 \<longrightarrow>
           countCharacters st (pre @ w @ post) =
             addCounts (countCharacters st pre) (countCharacters st post)"
      using dec a roman_uncounted[of st w] by simp
    have B: "length w = 1 \<longrightarrow>
           countCharacters st (pre @ w @ post) =
             addCounts (addCounts (countCharacters st pre) (zeroCounts\<lparr>english := 1\<rparr>))
               (countCharacters st post)"
    proof
      assume "length w = 1"
      then obtain x where x: "w = [x]" by (cases w) simp_all
      then have "ENGLISH x" using l by simp
      then have "countCharacters st w = zeroCounts\<lparr>english := 1\<rparr>"
        using a x single_letter[of st x] by simp
      then show "countCharacters st (pre @ w @ post) =
             addCounts (addCounts (countCharacters st pre) (zeroCounts\<lparr>english := 1\<rparr>))
               (countCharacters st post)" using dec by simp
    qed
    have C: "\<not> ROMAN_NUMERALS w \<and> length w > 1 \<longrightarrow>
           countCharacters st (pre @ w @ post) =
             addCounts
               (addCounts (countCharacters st pre)
                  (zeroCounts\<lparr>english := int (length w), words := 1\<rparr>))
               (countCharacters st post)"
      using dec a l word_counted[of st w] by simp
    from A B C show "(ROMAN_NUMERALS w \<and> length w > 1 \<longrightarrow>
           countCharacters st (pre @ w @ post) =
             addCounts (countCharacters st pre) (countCharacters st post)) \<and>
        (length w = 1 \<longrightarrow>
           countCharacters st (pre @ w @ post) =
             addCounts (addCounts (countCharacters st pre) (zeroCounts\<lparr>english := 1\<rparr>))
               (countCharacters st post)) \<and>
        (\<not> ROMAN_NUMERALS w \<and> length w > 1 \<longrightarrow>
           countCharacters st (pre @ w @ post) =
             addCounts
               (addCounts (countCharacters st pre)
                  (zeroCounts\<lparr>english := int (length w), words := 1\<rparr>))
               (countCharacters st post))" by blast
  qed
  have alone: "(ROMAN_NUMERALS r \<and> length r > 1 \<longrightarrow> countCharacters st r = zeroCounts) \<and>
     (ENGLISH c \<longrightarrow> countCharacters st [c] = zeroCounts\<lparr>english := 1\<rparr>)"
    using a roman_uncounted[of st r] single_letter[of st c] by simp
  have six: "english (countCharacters st (utf16 ''III'')) = 0 \<and>
     words (countCharacters st (utf16 ''III'')) = 0 \<and>
     english (countCharacters st (utf16 ''abc'')) = 3 \<and>
     words (countCharacters st (utf16 ''abc'')) = 1 \<and>
     english (countCharacters st (utf16 ''a'')) = 1 \<and>
     words (countCharacters st (utf16 ''a'')) = 0"
    using a 1 2 3 by (simp add: zeroCounts_def utf16_def)
  from six run alone show "english (countCharacters st (utf16 ''III'')) = 0 \<and>
     words (countCharacters st (utf16 ''III'')) = 0 \<and>
     english (countCharacters st (utf16 ''abc'')) = 3 \<and>
     words (countCharacters st (utf16 ''abc'')) = 1 \<and>
     english (countCharacters st (utf16 ''a'')) = 1 \<and>
     words (countCharacters st (utf16 ''a'')) = 0 \<and>
     (maximalRun pre w post \<longrightarrow>
        (ROMAN_NUMERALS w \<and> length w > 1 \<longrightarrow>
           countCharacters st (pre @ w @ post) =
             addCounts (countCharacters st pre) (countCharacters st post)) \<and>
        (length w = 1 \<longrightarrow>
           countCharacters st (pre @ w @ post) =
             addCounts (addCounts (countCharacters st pre) (zeroCounts\<lparr>english := 1\<rparr>))
               (countCharacters st post)) \<and>
        (\<not> ROMAN_NUMERALS w \<and> length w > 1 \<longrightarrow>
           countCharacters st (pre @ w @ post) =
             addCounts
               (addCounts (countCharacters st pre)
                  (zeroCounts\<lparr>english := int (length w), words := 1\<rparr>))
               (countCharacters st post))) \<and>
     (ROMAN_NUMERALS r \<and> length r > 1 \<longrightarrow> countCharacters st r = zeroCounts) \<and>
     (ENGLISH c \<longrightarrow> countCharacters st [c] = zeroCounts\<lparr>english := 1\<rparr>)"
    by blast
qed

text \<open>The parts around the runs of the examples below, counted by running the loop.\<close>

lemma count_examples:
  "countCharacters exampleSettings (utf16 ''x '') = zeroCounts\<lparr>english := 1\<rparr>"
  "countCharacters exampleSettings (utf16 '' am'') = zeroCounts\<lparr>english := 2, words := 1\<rparr>"
  "countCharacters exampleSettings (utf16 ''7'') = zeroCounts\<lparr>numbers := 1\<rparr>"
  "countCharacters exampleSettings (utf16 ''!'') = zeroCounts\<lparr>punctuation := 1\<rparr>"
  by (simp_all add: countCharacters_def utf16_def countLoop.simps countBody_def wordEnd.simps
      substring_def exampleSettings_def zeroCounts_def Let_def NUMBERS_def FULL_WIDTH_NUMBERS_def
      ENGLISH_def CHINESE_def chineseClass_def PUNCTUATION_def FULL_WIDTH_PUNCTUATION_def
      isWordChar_def isSpace_def ROMAN_NUMERALS_def inRange_def)

theorem countCharacters_roman_and_words_witness:
  "trackEnglish exampleSettings \<and> showWordCount exampleSettings \<and>
   english (countCharacters exampleSettings (utf16 ''III'')) = 0 \<and>
   words (countCharacters exampleSettings (utf16 ''III'')) = 0 \<and>
   english (countCharacters exampleSettings (utf16 ''abc'')) = 3 \<and>
   words (countCharacters exampleSettings (utf16 ''abc'')) = 1 \<and>
   english (countCharacters exampleSettings (utf16 ''a'')) = 1 \<and>
   words (countCharacters exampleSettings (utf16 ''a'')) = 0 \<and>
   maximalRun (utf16 ''x '') (utf16 ''III'') [] \<and> ROMAN_NUMERALS (utf16 ''III'') \<and>
   countCharacters exampleSettings (utf16 ''x III'') = zeroCounts\<lparr>english := 1\<rparr> \<and>
   maximalRun [] (utf16 ''I'') (utf16 '' am'') \<and>
   countCharacters exampleSettings (utf16 ''I am'') = zeroCounts\<lparr>english := 3, words := 1\<rparr> \<and>
   maximalRun (utf16 ''7'') (utf16 ''abc'') (utf16 ''!'') \<and> \<not> ROMAN_NUMERALS (utf16 ''abc'') \<and>
   countCharacters exampleSettings (utf16 ''7abc!'') =
     zeroCounts\<lparr>english := 3, punctuation := 1, numbers := 1, words := 1\<rparr> \<and>
   ROMAN_NUMERALS (utf16 ''MCMxiv'') \<and>
   countCharacters exampleSettings (utf16 ''MCMxiv'') = zeroCounts \<and>
   ENGLISH 97 \<and>
   countCharacters exampleSettings [97] = zeroCounts\<lparr>english := 1\<rparr>"
proof -
  have a: "trackEnglish exampleSettings \<and> showWordCount exampleSettings"
    by (simp add: exampleSettings_def)
  have r: "ROMAN_NUMERALS (utf16 ''MCMxiv'') \<and> length (utf16 ''MCMxiv'') > 1"
    by (simp add: ROMAN_NUMERALS_def utf16_def)
  have e: "ENGLISH 97" by (simp add: ENGLISH_def inRange_def)
  have m1: "maximalRun (utf16 ''x '') (utf16 ''III'') [] \<and> ROMAN_NUMERALS (utf16 ''III'') \<and>
      length (utf16 ''III'') > 1"
    by (simp add: maximalRun_def ROMAN_NUMERALS_def utf16_def ENGLISH_def inRange_def)
  have m2: "maximalRun [] (utf16 ''I'') (utf16 '' am'') \<and> length (utf16 ''I'') = 1"
    by (simp add: maximalRun_def utf16_def ENGLISH_def inRange_def)
  have m3: "maximalRun (utf16 ''7'') (utf16 ''abc'') (utf16 ''!'') \<and>
      \<not> ROMAN_NUMERALS (utf16 ''abc'') \<and> length (utf16 ''abc'') > 1"
    by (simp add: maximalRun_def ROMAN_NUMERALS_def utf16_def ENGLISH_def inRange_def)
  have s: "utf16 ''x '' @ utf16 ''III'' @ [] = utf16 ''x III''"
    "[] @ utf16 ''I'' @ utf16 '' am'' = utf16 ''I am''"
    "utf16 ''7'' @ utf16 ''abc'' @ utf16 ''!'' = utf16 ''7abc!''"
    by (simp_all add: utf16_def)
  have x1: "countCharacters exampleSettings (utf16 ''x III'') = zeroCounts\<lparr>english := 1\<rparr>"
    using countCharacters_roman_and_words[of exampleSettings "utf16 ''x ''" "utf16 ''III''" "[]" "utf16 ''MCMxiv''" 97]
      a m1 unfolding s by (simp add: count_examples countCharacters_Nil)
  have x2: "countCharacters exampleSettings (utf16 ''I am'') = zeroCounts\<lparr>english := 3, words := 1\<rparr>"
    using countCharacters_roman_and_words[of exampleSettings "[]" "utf16 ''I''" "utf16 '' am''" "utf16 ''MCMxiv''" 97]
      a m2 unfolding s
    by (simp add: count_examples countCharacters_Nil) (simp add: addCounts_def zeroCounts_def)
  have x3: "countCharacters exampleSettings (utf16 ''7abc!'') =
     zeroCounts\<lparr>english := 3, punctuation := 1, numbers := 1, words := 1\<rparr>"
    using countCharacters_roman_and_words[of exampleSettings "utf16 ''7''" "utf16 ''abc''" "utf16 ''!''" "utf16 ''MCMxiv''" 97]
      a m3 unfolding s
    by (simp add: count_examples countCharacters_Nil) (simp add: addCounts_def zeroCounts_def utf16_def)
  from countCharacters_roman_and_words[of exampleSettings "utf16 ''x ''" "utf16 ''III''" "[]" "utf16 ''MCMxiv''" 97]
    a r e m1 m2 m3 x1 x2 x3
  show ?thesis by blast
qed

section \<open>Properties of the markup stripper (TextAnalyzer.preprocessText)\<close>

lemmas pattern_defs = frontmatterPattern_def codeBlockPattern_def inlineCodePattern_def
  imagePattern_def linkPattern_def bracketTail_def headingPattern_def quotePattern_def
  listPattern_def taskPattern_def htmlPattern_def spacePattern_def startsWith_def
  lineStart_def isLineTerminator_def isSpace_def inRange_def trim_def utf16_def Let_def

lemma strip_heading_twice: "preprocessText (utf16 ''# # a'') = utf16 ''# a''"
  by (simp add: preprocessText_def replaceAll.simps pattern_defs)

lemma strip_heading_once: "preprocessText (utf16 ''# a'') = utf16 ''a''"
  by (simp add: preprocessText_def replaceAll.simps pattern_defs)

lemma markupChars_set: "set markupChars = {35, 62, 45, 42, 43, 91, 96, 60}"
  by (auto simp: markupChars_def utf16_def)

lemma plainText_Cons: "plainText (c # cs) = (c \<notin> set markupChars \<and> plainText cs)"
  by (simp add: plainText_def)

lemma plainText_Nil: "plainText []"
  by (simp add: plainText_def)

lemma replaceAll_no_match:
  assumes "\<And>bol t. plainText t \<Longrightarrow> p bol t = None"
  shows "plainText s \<Longrightarrow> replaceAll p prev s = s"
proof (induction s arbitrary: prev)
  case Nil
  then show ?case using assms[of "[]"] by (simp add: replaceAll.simps plainText_Nil)
next
  case (Cons c cs)
  then have "p (lineStart prev) (c # cs) = None" using assms by blast
  then show ?case using Cons by (simp add: replaceAll.simps plainText_Cons)
qed

lemma frontmatter_plain: "plainText t \<Longrightarrow> frontmatterPattern bol t = None"
  by (cases t) (auto simp: frontmatterPattern_def startsWith_def utf16_def plainText_Cons markupChars_set)

lemma codeBlock_plain: "plainText t \<Longrightarrow> codeBlockPattern bol t = None"
  by (cases t) (auto simp: codeBlockPattern_def startsWith_def utf16_def plainText_Cons markupChars_set)

lemma inlineCode_plain: "plainText t \<Longrightarrow> inlineCodePattern bol t = None"
  by (cases t) (auto simp: inlineCodePattern_def plainText_Cons markupChars_set)

lemma image_plain: "plainText t \<Longrightarrow> imagePattern bol t = None"
proof (cases t)
  case Nil
  then show ?thesis by (simp add: imagePattern_def startsWith_def)
next
  case (Cons c cs)
  assume "plainText t"
  then show ?thesis using Cons
    by (cases cs) (auto simp: imagePattern_def startsWith_def plainText_Cons markupChars_set)
qed

lemma link_plain: "plainText t \<Longrightarrow> linkPattern bol t = None"
  by (cases t) (auto simp: linkPattern_def startsWith_def plainText_Cons markupChars_set)

lemma heading_plain: "plainText t \<Longrightarrow> headingPattern bol t = None"
  by (cases t) (auto simp: headingPattern_def Let_def plainText_Cons markupChars_set)

lemma quote_plain: "plainText t \<Longrightarrow> quotePattern bol t = None"
  by (cases t) (auto simp: quotePattern_def startsWith_def plainText_Cons markupChars_set)

lemma list_plain: "plainText t \<Longrightarrow> listPattern bol t = None"
  by (cases t) (auto simp: listPattern_def Let_def plainText_Cons markupChars_set)

lemma task_plain: "plainText t \<Longrightarrow> taskPattern bol t = None"
  by (cases t) (auto simp: taskPattern_def Let_def startsWith_def utf16_def plainText_Cons markupChars_set)

lemma html_plain: "plainText t \<Longrightarrow> htmlPattern bol t = None"
  by (cases t) (auto simp: htmlPattern_def plainText_Cons markupChars_set)

lemma preprocessText_plain:
  "plainText x \<Longrightarrow> preprocessText x = trim (replaceAll spacePattern None x)"
  by (simp add: preprocessText_def replaceAll_no_match frontmatter_plain codeBlock_plain
      inlineCode_plain image_plain link_plain heading_plain quote_plain list_plain task_plain
      html_plain)

text \<open>What the white space step computes, and the texts it leaves as they are: every
  white space code unit is a space, and no two are adjacent.\<close>

function squeeze :: "jsstring \<Rightarrow> jsstring" where
  "squeeze [] = []"
| "squeeze (c # cs) =
     (if isSpace c then 32 # squeeze (dropWhile isSpace cs) else c # squeeze cs)"
  by pat_completeness auto
termination
  by (relation "measure length") (auto simp: length_dropWhile_le less_Suc_eq_le)

fun squeezed :: "jsstring \<Rightarrow> bool" where
  "squeezed [] = True"
| "squeezed (c # cs) =
     ((\<not> isSpace c \<or> (c = 32 \<and> (cs = [] \<or> \<not> isSpace (hd cs)))) \<and> squeezed cs)"

lemma isSpace_32: "isSpace 32"
  by (simp add: isSpace_def)

lemma spacePattern_Nil: "spacePattern bol [] = None"
  by (simp add: spacePattern_def)

lemma spacePattern_Cons:
  "spacePattern bol (c # cs) =
     (if isSpace c then Some (1 + length (takeWhile isSpace cs), [32]) else None)"
  by (simp add: spacePattern_def Let_def)

lemma replaceAll_space: "replaceAll spacePattern prev s = squeeze s"
proof (induction s arbitrary: prev rule: squeeze.induct)
  case 1
  show ?case by (simp add: replaceAll.simps spacePattern_Nil)
next
  case (2 c cs)
  show ?case
  proof (cases "isSpace c")
    case True
    have "replaceAll spacePattern prev (c # cs) =
        32 # replaceAll spacePattern (Some ((c # cs) ! length (takeWhile isSpace cs)))
               (drop (length (takeWhile isSpace cs)) cs)"
      using True by (simp add: replaceAll.simps spacePattern_Cons)
    also have "\<dots> = 32 # squeeze (dropWhile isSpace cs)"
      using "2.IH"(1)[OF True] by (simp add: dropWhile_eq_drop)
    finally show ?thesis using True by simp
  next
    case False
    then show ?thesis using "2.IH"(2) by (simp add: replaceAll.simps spacePattern_Cons)
  qed
qed

lemma squeeze_hd:
  "s \<noteq> [] \<Longrightarrow> \<not> isSpace (hd s) \<Longrightarrow> squeeze s \<noteq> [] \<and> hd (squeeze s) = hd s"
  by (cases s) simp_all

lemma squeezed_squeeze: "squeezed (squeeze s)"
proof (induction s rule: squeeze.induct)
  case 1
  show ?case by simp
next
  case (2 c cs)
  show ?case
  proof (cases "isSpace c")
    case True
    let ?d = "dropWhile isSpace cs"
    have "squeeze ?d = [] \<or> \<not> isSpace (hd (squeeze ?d))"
    proof (cases "?d = []")
      case True
      then show ?thesis by (metis squeeze.simps(1))
    next
      case False
      then have "\<not> isSpace (hd ?d)" by (rule hd_dropWhile)
      with False show ?thesis using squeeze_hd[of ?d] by simp
    qed
    then show ?thesis using True "2.IH"(1) by simp
  next
    case False
    then show ?thesis using "2.IH"(2) by simp
  qed
qed

lemma squeeze_squeezed: "squeezed s \<Longrightarrow> squeeze s = s"
proof (induction s)
  case Nil
  show ?case by simp
next
  case (Cons c cs)
  show ?case
  proof (cases "isSpace c")
    case True
    then have c: "c = 32" and h: "cs = [] \<or> \<not> isSpace (hd cs)" using Cons.prems by auto
    from h have "dropWhile isSpace cs = cs" by (simp add: dropWhile_eq_self_iff)
    then show ?thesis using True c Cons by simp
  next
    case False
    then show ?thesis using Cons by simp
  qed
qed

lemma squeezed_append: "squeezed (xs @ ys) \<Longrightarrow> squeezed xs \<and> squeezed ys"
proof (induction xs)
  case Nil
  then show ?case by simp
next
  case (Cons c cs)
  then show ?case by (cases cs) auto
qed

lemma trim_prefix: "\<exists>ys. dropWhile isSpace s = trim s @ ys"
proof -
  let ?v = "dropWhile isSpace s"
  have "rev (takeWhile isSpace (rev ?v) @ dropWhile isSpace (rev ?v))
      = rev (dropWhile isSpace (rev ?v)) @ rev (takeWhile isSpace (rev ?v))"
    by (rule rev_append)
  then have "?v = rev (dropWhile isSpace (rev ?v)) @ rev (takeWhile isSpace (rev ?v))"
    by (simp only: takeWhile_dropWhile_id rev_rev_ident)
  then have "?v = trim s @ rev (takeWhile isSpace (rev ?v))"
    by (simp only: trim_def)
  then show ?thesis by blast
qed

lemma squeezed_trim: "squeezed s \<Longrightarrow> squeezed (trim s)"
proof -
  assume s: "squeezed s"
  have "s = takeWhile isSpace s @ dropWhile isSpace s" by simp
  with s have "squeezed (takeWhile isSpace s @ dropWhile isSpace s)" by simp
  then have v: "squeezed (dropWhile isSpace s)" using squeezed_append by blast
  from trim_prefix obtain ys where "dropWhile isSpace s = trim s @ ys" by blast
  with v show ?thesis using squeezed_append by metis
qed

lemma trim_trim: "trim (trim s) = trim s"
proof -
  let ?v = "dropWhile isSpace s"
  let ?t = "trim s"
  have r: "rev ?t = dropWhile isSpace (rev ?v)" by (simp add: trim_def)
  have a: "dropWhile isSpace ?t = ?t"
  proof (cases "?t = []")
    case True
    then show ?thesis by simp
  next
    case False
    from trim_prefix obtain ys where v: "?v = ?t @ ys" by blast
    with False have "?v \<noteq> []" and "hd ?v = hd ?t" by auto
    then have "\<not> isSpace (hd ?t)" using hd_dropWhile[of isSpace s] by simp
    then show ?thesis by (simp add: dropWhile_eq_self_iff)
  qed
  have b: "dropWhile isSpace (rev ?t) = rev ?t" by (simp add: r)
  have "trim ?t = rev (dropWhile isSpace (rev (dropWhile isSpace ?t)))" by (simp add: trim_def)
  also have "\<dots> = rev (dropWhile isSpace (rev ?t))" by (simp only: a)
  also have "\<dots> = ?t" by (simp only: b rev_rev_ident)
  finally show ?thesis .
qed

lemma set_squeeze: "set (squeeze s) \<subseteq> insert 32 (set s)"
proof (induction s rule: squeeze.induct)
  case 1
  show ?case by simp
next
  case (2 c cs)
  show ?case
  proof (cases "isSpace c")
    case True
    have "set (dropWhile isSpace cs) \<subseteq> set cs" by (auto dest: set_dropWhileD)
    then show ?thesis using True "2.IH"(1) by auto
  next
    case False
    then show ?thesis using "2.IH"(2) by auto
  qed
qed

lemma set_trim: "set (trim s) \<subseteq> set s"
  by (auto simp: trim_def dest!: set_dropWhileD)

lemma plainText_set: "plainText s = (\<forall>c \<in> set s. c \<notin> set markupChars)"
  by (simp add: plainText_def list_all_iff)

lemma plainText_normalised: "plainText s \<Longrightarrow> plainText (trim (squeeze s))"
proof -
  assume p: "plainText s"
  have "32 \<notin> set markupChars" by (simp add: markupChars_set)
  then show ?thesis using p set_squeeze[of s] set_trim[of "squeeze s"]
    unfolding plainText_set by blast
qed

lemma preprocessText_normalised: "\<exists>y. preprocessText x = trim (squeeze y)"
  by (auto simp: preprocessText_def replaceAll_space)

text \<open>
  C6, as stated, fails: the heading pattern removes one marker at the start of a line,
  and what follows it is a heading marker at the start of the output.
\<close>

theorem preprocessText_not_idempotent:
  "preprocessText (utf16 ''# # a'') = utf16 ''# a'' \<and>
   preprocessText (preprocessText (utf16 ''# # a'')) = utf16 ''a'' \<and>
   preprocessText (preprocessText (utf16 ''# # a'')) \<noteq> preprocessText (utf16 ''# # a'')"
  by (simp add: strip_heading_twice strip_heading_once) (simp add: utf16_def)

text \<open>
  C6, amended.  Stripping stripped text changes nothing whenever the stripped text is
  plain, that is, has none of the characters \<open># > - * + [\<close>, backquote and \<open><\<close>:
  \<open>strip(strip(x)) = strip(x)\<close> for every such \<open>x\<close>.  A text that is plain
  itself has a plain stripped text, which is the text with every white space run
  collapsed to one space and the ends trimmed.
\<close>

theorem preprocessText_idempotent_plain:
  "(plainText (preprocessText x) \<longrightarrow>
      preprocessText (preprocessText x) = preprocessText x) \<and>
   (plainText x \<longrightarrow>
      preprocessText x = trim (replaceAll spacePattern None x) \<and>
      plainText (preprocessText x))"
proof
  show "plainText (preprocessText x) \<longrightarrow> preprocessText (preprocessText x) = preprocessText x"
  proof
    assume p: "plainText (preprocessText x)"
    from preprocessText_normalised obtain y where y: "preprocessText x = trim (squeeze y)"
      by blast
    have "squeezed (trim (squeeze y))" by (rule squeezed_trim) (rule squeezed_squeeze)
    then have "squeeze (trim (squeeze y)) = trim (squeeze y)" by (rule squeeze_squeezed)
    then have "preprocessText (trim (squeeze y)) = trim (squeeze y)"
      using p y by (simp add: preprocessText_plain replaceAll_space trim_trim)
    then show "preprocessText (preprocessText x) = preprocessText x" using y by simp
  qed
next
  show "plainText x \<longrightarrow>
      preprocessText x = trim (replaceAll spacePattern None x) \<and> plainText (preprocessText x)"
  proof
    assume p: "plainText x"
    have a: "preprocessText x = trim (squeeze x)"
      using p by (simp add: preprocessText_plain replaceAll_space)
    have b: "plainText (trim (squeeze x))" using p by (rule plainText_normalised)
    show "preprocessText x = trim (replaceAll spacePattern None x) \<and>
       plainText (preprocessText x)"
      using a b by (simp add: replaceAll_space)
  qed
qed

lemma strip_plain_example:
  "preprocessText (utf16 '' Hello   world, 42!  '') = utf16 ''Hello world, 42!''"
  by (simp add: preprocessText_def replaceAll.simps pattern_defs)

lemma strip_markup_example:
  "preprocessText (utf16 ''## See [the docs](http://x.y)'') = utf16 ''See the docs''"
  by (simp add: preprocessText_def replaceAll.simps pattern_defs)

theorem preprocessText_idempotent_plain_witness:
  "plainText (preprocessText (utf16 ''## See [the docs](http://x.y)'')) \<and>
   preprocessText (preprocessText (utf16 ''## See [the docs](http://x.y)''))
     = utf16 ''See the docs'' \<and>
   plainText (utf16 '' Hello   world, 42!  '') \<and>
   preprocessText (utf16 '' Hello   world, 42!  '') = utf16 ''Hello world, 42!'' \<and>
   trim (replaceAll spacePattern None (utf16 '' Hello   world, 42!  ''))
     = utf16 ''Hello world, 42!''"
proof -
  have p1: "plainText (preprocessText (utf16 ''## See [the docs](http://x.y)''))"
    by (simp add: strip_markup_example) (simp add: plainText_def utf16_def markupChars_def)
  have p2: "plainText (utf16 '' Hello   world, 42!  '')"
    by (simp add: plainText_def utf16_def markupChars_def)
  from preprocessText_idempotent_plain[of "utf16 ''## See [the docs](http://x.y)''"] p1
  have a: "preprocessText (preprocessText (utf16 ''## See [the docs](http://x.y)''))
     = utf16 ''See the docs''"
    by (simp add: strip_markup_example)
  from preprocessText_idempotent_plain[of "utf16 '' Hello   world, 42!  ''"] p2
  have b: "trim (replaceAll spacePattern None (utf16 '' Hello   world, 42!  ''))
     = utf16 ''Hello world, 42!''"
    by (simp add: strip_plain_example)
  show ?thesis using p1 p2 a b by (simp add: strip_plain_example)
qed

section \<open>Properties of code regions in the two strippers\<close>

lemmas scan_defs = scanBody_def tagBlock_def bracketBlock_def linkBlock_def imageBlock_def
  headingBlock_def quoteBlock_def listBlock_def taskBlock_def ruleBlock_def tableBlock_def
  indexOf_def endsWith_def atLineStart_def runLength_def substring_def startsWith_def
  utf16_def Let_def frontmatterEndOf_def initialScan_def

lemmas post_defs = postProcess_def blanksPattern_def blankLinesPattern_def trim_def
  isSpace_def inRange_def lineStart_def isLineTerminator_def replaceAll.simps


subsection \<open>The plugin's loop inside a code region\<close>










subsection \<open>A code region between ordinary text\<close>










subsection \<open>The plugin's loop need not end\<close>

text \<open>A state in which the body leaves the state as it is, is a state from which the
  loop does not return; a text that starts with a quote marker is in such a state at
  once.\<close>

lemma scanLoop_stuck:
  assumes "scanLoop t fe s = Some y"
  shows "\<not> (idx s < length t \<and> scanBody t fe s = s)"
proof -
  have "\<And>loop t fe s y.
          (\<And>t fe s y. loop t fe s = Some y \<Longrightarrow> \<not> (idx s < length t \<and> scanBody t fe s = s)) \<Longrightarrow>
          (if idx s < length t then loop t fe (scanBody t fe s) else Some (result s)) = Some y \<Longrightarrow>
          \<not> (idx s < length t \<and> scanBody t fe s = s)"
  proof
    fix loop :: "jsstring \<Rightarrow> nat \<Rightarrow> scan \<Rightarrow> jsstring option" and t fe s y
    assume ih: "\<And>t fe s y. loop t fe s = Some y \<Longrightarrow> \<not> (idx s < length t \<and> scanBody t fe s = s)"
      and body: "(if idx s < length t then loop t fe (scanBody t fe s) else Some (result s)) = Some y"
      and st: "idx s < length t \<and> scanBody t fe s = s"
    from body st have "loop t fe s = Some y" by simp
    from ih[OF this] st show False by simp
  qed
  from scanLoop.raw_induct[where P = "\<lambda>t fe s y. \<not> (idx s < length t \<and> scanBody t fe s = s)", OF this assms]
  show ?thesis .
qed

lemma quote_scan_stuck:
  "scanBody (utf16 ''> a'') 0 (initialScan (utf16 ''> a'')) = initialScan (utf16 ''> a'')"
  by (simp add: scan_defs)

lemma plugin_quote_diverges: "plugin_preprocessText (utf16 ''> a'') = None"
proof -
  have "scanLoop (utf16 ''> a'') 0 (initialScan (utf16 ''> a'')) = None"
  proof (cases "scanLoop (utf16 ''> a'') 0 (initialScan (utf16 ''> a''))")
    case None
    then show ?thesis .
  next
    case (Some y)
    from scanLoop_stuck[OF Some] quote_scan_stuck show ?thesis
      by (simp add: initialScan_def utf16_def)
  qed
  moreover have "frontmatterEndOf (utf16 ''> a'') = None"
    by (simp add: frontmatterEndOf_def startsWith_def utf16_def)
  ultimately show ?thesis by (simp add: plugin_preprocessText_def)
qed

subsection \<open>TextAnalyzer.preprocessText on a code region\<close>


























subsection \<open>Examples\<close>





text \<open>The test for a doubled dollar sign asks whether the loop is in inline code and
  not whether it is in a fenced block, the one for a single dollar sign asks the
  latter: inside a fence a single dollar sign is copied and a doubled one is taken as
  a formula delimiter.\<close>

lemma plugin_dollar_examples:
  "plugin_preprocessText (utf16 ''```a$b```'') = Some (utf16 ''a$b'')"
  "plugin_preprocessText (utf16 ''```a$$b```'') = Some (utf16 ''ab'')"
  by (simp_all add: plugin_preprocessText_def scanLoop.simps scan_defs post_defs)

text \<open>A backquote inside a fenced block and a dollar sign inside an inline span
  switch the inline code flag and are not copied.\<close>

lemma plugin_delimiter_examples:
  "plugin_preprocessText (utf16 ''```a`b```'') = Some (utf16 ''ab'')"
  "plugin_preprocessText (utf16 ''`a$b`'') = Some (utf16 ''ab'')"
  by (simp_all add: plugin_preprocessText_def scanLoop.simps scan_defs post_defs)

text \<open>The plugin's stripper too removes one heading marker per pass.\<close>

lemma plugin_heading_example:
  "plugin_preprocessText (utf16 ''# # a'') = Some (utf16 ''# a'') \<and>
   plugin_preprocessText (utf16 ''# a'') = Some (utf16 ''a'')"
  by (simp add: plugin_preprocessText_def scanLoop.simps scan_defs post_defs)






end
